theory Spec2Isabelle
  imports Complex_Main "HOL-Library.Char_ord" "HOL-Library.List_Lexorder" "HOL-Library.Multiset"
begin

section \<open>Errors\<close>

text \<open>
  Every \<^verbatim>\<open>throw\<close> and every rejected promise of the TypeScript sources is a value:
  \<^item> \<open>Error msg\<close>: \<^verbatim>\<open>new Error(msg)\<close>;
  \<^item> \<open>TypeError msg\<close>: the runtime's TypeError (a property read on \<^verbatim>\<open>undefined\<close>,
    \<^verbatim>\<open>Object.keys(undefined)\<close>, a method call on \<^verbatim>\<open>null\<close>);
  \<^item> \<open>WrongFileTypeError\<close>: the class of that name in \<^verbatim>\<open>types.ts\<close>;
  \<^item> \<open>FsError code\<close>: a rejection of an \<^verbatim>\<open>fs-extra\<close> call;
  \<^item> \<open>FfmpegError msg\<close>: the \<^verbatim>\<open>err\<close> passed to the \<^verbatim>\<open>error\<close> event of an ffmpeg session.
\<close>

datatype error =
    Error string
  | TypeError string
  | WrongFileTypeError
  | FsError string
  | FfmpegError string

section \<open>The file system that holds the two cache tiers\<close>

text \<open>
  A path is the list of its segments below the root, so \<^verbatim>\<open>resolve(dir, 'videos', filename)\<close>
  is \<open>dir @ [''videos'', filename]\<close>. The file system maps a path to what is stored there.
\<close>

type_synonym path = "string list"

datatype node = File string | Dir

type_synonym filesystem = "path \<Rightarrow> node option"

text \<open>\<open>isUnder p q\<close>: \<open>q\<close> is \<open>p\<close> itself or lies below \<open>p\<close>.\<close>

definition isUnder :: "path \<Rightarrow> path \<Rightarrow> bool" where
  "isUnder p q = (take (length p) q = p)"

text \<open>The proper ancestors of a path, the root first.\<close>

definition ancestors :: "path \<Rightarrow> path list" where
  "ancestors p = map (\<lambda>n. take n p) [0..<length p]"

definition isFile :: "node option \<Rightarrow> bool" where
  "isFile n = (case n of Some (File c) \<Rightarrow> True | _ \<Rightarrow> False)"

text \<open>\<^verbatim>\<open>pathExists(p)\<close> of fs-extra.\<close>

definition pathExists :: "path \<Rightarrow> filesystem \<Rightarrow> bool" where
  "pathExists p fs = (fs p \<noteq> None)"

text \<open>
  \<^verbatim>\<open>ensureDir(d)\<close> of fs-extra (\<^verbatim>\<open>mkdir -p\<close>): every missing directory on the way to \<open>d\<close>, and \<open>d\<close>
  itself, is created; a regular file on the way is the error ENOTDIR (EEXIST at \<open>d\<close> itself).
\<close>

definition ensureDir :: "path \<Rightarrow> filesystem \<Rightarrow> error + filesystem" where
  "ensureDir d fs =
     (if list_ex (\<lambda>a. isFile (fs a)) (ancestors d) then Inl (FsError ''ENOTDIR'')
      else if isFile (fs d) then Inl (FsError ''EEXIST'')
      else Inr (\<lambda>q. if (q = d \<or> q \<in> set (ancestors d)) \<and> fs q = None then Some Dir else fs q))"

text \<open>
  \<^verbatim>\<open>remove(p)\<close> of fs-extra (\<^verbatim>\<open>rm -rf\<close>): \<open>p\<close> and everything below it is gone; removing what
  does not exist is not an error.
\<close>

definition remove :: "path \<Rightarrow> filesystem \<Rightarrow> filesystem" where
  "remove p fs = (\<lambda>q. if isUnder p q then None else fs q)"

text \<open>
  \<^verbatim>\<open>move(src, dest)\<close> of fs-extra with its default \<^verbatim>\<open>overwrite: false\<close>. It rejects when the
  source is missing, when the destination is the source or lies inside it, and when the
  destination exists. Otherwise it creates the destination's parent directories and renames:
  the whole subtree at \<open>src\<close> is afterwards at \<open>dest\<close>, and nothing is left at \<open>src\<close>.
\<close>

definition move :: "path \<Rightarrow> path \<Rightarrow> filesystem \<Rightarrow> error + filesystem" where
  "move src dest fs =
     (if fs src = None then Inl (FsError ''ENOENT'')
      else if isUnder src dest then Inl (FsError ''Cannot move to a subdirectory of itself'')
      else if list_ex (\<lambda>a. isFile (fs a)) (ancestors dest) then Inl (FsError ''ENOTDIR'')
      else if fs dest \<noteq> None then Inl (FsError ''dest already exists.'')
      else Inr (\<lambda>q. if isUnder dest q then fs (src @ drop (length dest) q)
                    else if isUnder src q then None
                    else if q \<in> set (ancestors dest) \<and> fs q = None then Some Dir
                    else fs q))"



section \<open>The tiered cache store\<close>

subsection \<open>\<^verbatim>\<open>FFMPEG.restoreFromCache\<close>\<close>

text \<open>
  The method's \<^verbatim>\<open>label\<close> and \<^verbatim>\<open>reporter\<close> only feed a log line. The result is the returned
  boolean (or the rejection) together with the file system the call leaves behind.
\<close>

definition restoreFromCache :: "path \<Rightarrow> path \<Rightarrow> filesystem \<Rightarrow> (error + bool) \<times> filesystem" where
  "restoreFromCache activePath rollingPath fs =
     (let inActiveCache = pathExists activePath fs in
      if \<not> inActiveCache \<and> pathExists rollingPath fs
      then (case move rollingPath activePath fs of
              Inl e \<Rightarrow> (Inl e, fs)
            | Inr fs' \<Rightarrow> (Inr True, fs'))
      else (Inr inActiveCache, fs))"

subsection \<open>\<^verbatim>\<open>onPreInit\<close>: tier rotation\<close>

text \<open>
  The rotation block at the head of \<^verbatim>\<open>onPreInit\<close>. \<open>nodeEnv\<close> is \<^verbatim>\<open>process.env.NODE_ENV\<close>
  (\<open>None\<close> when the variable is unset). Both existence flags are read before anything is
  changed. The rest of the hook provisions the ffmpeg binaries and does not touch the tiers.
\<close>

definition onPreInit ::
  "string option \<Rightarrow> path \<Rightarrow> path \<Rightarrow> filesystem \<Rightarrow> (error + unit) \<times> filesystem" where
  "onPreInit nodeEnv cachePathActive cachePathRolling fs =
     (if nodeEnv = Some ''production'' then
        (let hasActiveCache = pathExists cachePathActive fs;
             hasRollingCache = pathExists cachePathRolling fs;
             fs1 = (if hasRollingCache \<and> hasActiveCache then remove cachePathRolling fs else fs)
         in if hasActiveCache
            then (case move cachePathActive cachePathRolling fs1 of
                    Inl e \<Rightarrow> (Inl e, fs1)
                  | Inr fs2 \<Rightarrow> (Inr (), fs2))
            else (Inr (), fs1))
      else (Inr (), fs))"

subsection \<open>\<^verbatim>\<open>onPostBuild\<close>: reconciliation\<close>

text \<open>Both flags are read once, before the first \<^verbatim>\<open>if\<close>; the second \<^verbatim>\<open>if\<close> tests the same flags.\<close>

definition onPostBuild ::
  "string option \<Rightarrow> path \<Rightarrow> path \<Rightarrow> filesystem \<Rightarrow> (error + unit) \<times> filesystem" where
  "onPostBuild nodeEnv cachePathActive cachePathRolling fs =
     (let hasActiveCache = pathExists cachePathActive fs;
          hasRollingCache = pathExists cachePathRolling fs
      in case (if \<not> hasActiveCache \<and> hasRollingCache \<and> nodeEnv = Some ''production''
               then move cachePathRolling cachePathActive fs
               else Inr fs) of
           Inl e \<Rightarrow> (Inl e, fs)
         | Inr fs1 \<Rightarrow>
             if hasActiveCache \<and> hasRollingCache \<and> nodeEnv = Some ''production''
             then (Inr (), remove cachePathRolling fs1)
             else (Inr (), fs1))"

text \<open>
  The tier directories of a configuration are separate when neither is the other or lies
  inside the other: \<^verbatim>\<open>getCacheDirs\<close> resolves \<^verbatim>\<open>cacheDirectory\<close> and \<^verbatim>\<open>cacheDirectory + '-rolling'\<close>,
  two sibling directories.
\<close>

definition separate :: "path \<Rightarrow> path \<Rightarrow> bool" where
  "separate a r = (\<not> isUnder a r \<and> \<not> isUnder r a)"

definition dirsAbove :: "path \<Rightarrow> filesystem \<Rightarrow> bool" where
  "dirsAbove p fs = (\<not> list_ex (\<lambda>a. isFile (fs a)) (ancestors p))"

subsection \<open>Example cache layouts\<close>

text \<open>
  A file system whose only entries are the tier directories named in \<open>tiers\<close>, each holding
  \<^verbatim>\<open>videos/clip-h264.mp4\<close>; the file's content records the tier it was made in.
\<close>

definition exampleTiers :: "string list \<Rightarrow> filesystem" where
  "exampleTiers tiers p =
     (case p of
        [] \<Rightarrow> Some Dir
      | t # rest \<Rightarrow>
          if t \<in> set tiers \<and> (rest = [] \<or> rest = [''videos'']) then Some Dir
          else if t \<in> set tiers \<and> rest = [''videos'', ''clip-h264.mp4'']
            then Some (File (''made in '' @ t))
          else None)"

section \<open>JavaScript values\<close>

text \<open>
  A field of an argument object or of a probed stream may be \<^verbatim>\<open>undefined\<close>, \<^verbatim>\<open>null\<close> or hold a
  value. A GraphQL \<^verbatim>\<open>Int\<close> is an \<open>int\<close>, a \<^verbatim>\<open>Float\<close> a \<open>rat\<close>. A number that may be \<^verbatim>\<open>NaN\<close> (the
  result of \<^verbatim>\<open>parseInt\<close>) is an \<open>int option\<close> with \<open>None\<close> for \<^verbatim>\<open>NaN\<close>.
\<close>

datatype 'a js = Undefined | Null | Val 'a

text \<open>Truthiness: a number is truthy unless it is \<open>0\<close>, a string unless it is empty.\<close>

definition truthyNum :: "int js \<Rightarrow> bool" where
  "truthyNum v = (case v of Val n \<Rightarrow> n \<noteq> 0 | _ \<Rightarrow> False)"

definition truthyStr :: "string js \<Rightarrow> bool" where
  "truthyStr v = (case v of Val s \<Rightarrow> s \<noteq> [] | _ \<Rightarrow> False)"

text \<open>Decimal rendering of an integer, as \<^verbatim>\<open>String(n)\<close> and a template literal give it.\<close>

fun showNat :: "nat \<Rightarrow> string" where
  "showNat n =
     (if n < 10 then [''0123456789'' ! n]
      else showNat (n div 10) @ [''0123456789'' ! (n mod 10)])"

declare showNat.simps [simp del]

definition showInt :: "int \<Rightarrow> string" where
  "showInt i = (if i < 0 then ''-'' @ showNat (nat (- i)) else showNat (nat i))"

definition showNum :: "int option \<Rightarrow> string" where
  "showNum v = (case v of None \<Rightarrow> ''NaN'' | Some i \<Rightarrow> showInt i)"

text \<open>A value inside a template literal, \<^verbatim>\<open>`${v}`\<close>.\<close>

definition templateInt :: "int js \<Rightarrow> string" where
  "templateInt v = (case v of Undefined \<Rightarrow> ''undefined'' | Null \<Rightarrow> ''null'' | Val n \<Rightarrow> showInt n)"

definition templateStr :: "string js \<Rightarrow> string" where
  "templateStr v = (case v of Undefined \<Rightarrow> ''undefined'' | Null \<Rightarrow> ''null'' | Val s \<Rightarrow> s)"

text \<open>
  A JavaScript number: a finite double, held as the rational it stands for, or one of the three
  special values. Negative zero is not kept apart from zero; where the sign of a zero decides a
  result (\<open>divideBy\<close> below) the sign travels beside the number.
\<close>

datatype jsnumber = Num rat | NaN | PosInfinity | NegInfinity

text \<open>
  \<^verbatim>\<open>String(x)\<close> of a number. An integer below \<open>10^21\<close> is written with all its decimal digits
  and no exponent. The decimal text of any other finite double (the shortest digits that read
  back as the same double) is the runtime's business; \<open>numberToString\<close> stands for
  \<^verbatim>\<open>Number.prototype.toString\<close> there.
\<close>

definition toStringNumber :: "(rat \<Rightarrow> string) \<Rightarrow> jsnumber \<Rightarrow> string" where
  "toStringNumber numberToString x =
     (case x of
        NaN \<Rightarrow> ''NaN''
      | PosInfinity \<Rightarrow> ''Infinity''
      | NegInfinity \<Rightarrow> ''-Infinity''
      | Num r \<Rightarrow>
          if of_int \<lfloor>r\<rfloor> = r \<and> \<bar>r\<bar> < 10 ^ 21 then showInt \<lfloor>r\<rfloor> else numberToString r)"

text \<open>A \<^verbatim>\<open>Float\<close> inside a template literal.\<close>

definition templateFloat :: "(rat \<Rightarrow> string) \<Rightarrow> rat js \<Rightarrow> string" where
  "templateFloat numberToString v =
     (case v of
        Undefined \<Rightarrow> ''undefined''
      | Null \<Rightarrow> ''null''
      | Val r \<Rightarrow> toStringNumber numberToString (Num r))"

subsection \<open>\<^verbatim>\<open>parseInt\<close>\<close>

text \<open>
  \<^verbatim>\<open>parseInt(s)\<close> without a radix: leading white space is skipped, a sign is read, a prefix
  \<^verbatim>\<open>0x\<close> selects radix 16, and the longest run of digits is the value; no digit at all is
  \<^verbatim>\<open>NaN\<close>. \<open>parseIntSigned\<close> keeps the sign apart from the magnitude, since \<^verbatim>\<open>parseInt('-0')\<close>
  is \<^verbatim>\<open>-0\<close>.
\<close>

definition isWhiteSpace :: "char \<Rightarrow> bool" where
  "isWhiteSpace c = (c \<in> set [CHR 0x09, CHR 0x0A, CHR 0x0B, CHR 0x0C, CHR 0x0D, CHR 0x20])"

fun indexOf :: "'a \<Rightarrow> 'a list \<Rightarrow> nat option" where
  "indexOf c [] = None"
| "indexOf c (x # xs) = (if c = x then Some 0 else map_option Suc (indexOf c xs))"

definition digitValue :: "nat \<Rightarrow> char \<Rightarrow> nat option" where
  "digitValue radix c =
     (case indexOf c ''0123456789abcdef'' of
        Some d \<Rightarrow> if d < radix then Some d else None
      | None \<Rightarrow>
          (case indexOf c ''ABCDEF'' of
             Some d \<Rightarrow> if d + 10 < radix then Some (d + 10) else None
           | None \<Rightarrow> None))"

fun parseDigits :: "nat \<Rightarrow> string \<Rightarrow> nat option \<Rightarrow> nat option" where
  "parseDigits radix [] acc = acc"
| "parseDigits radix (c # cs) acc =
     (case digitValue radix c of
        None \<Rightarrow> acc
      | Some d \<Rightarrow>
          parseDigits radix cs (Some (case acc of None \<Rightarrow> d | Some a \<Rightarrow> a * radix + d)))"

definition parseIntSigned :: "string \<Rightarrow> (bool \<times> nat) option" where
  "parseIntSigned s =
     (let t = dropWhile isWhiteSpace s;
          neg = (take 1 t = ''-'');
          u = (if take 1 t = ''-'' \<or> take 1 t = ''+'' then drop 1 t else t);
          hex = (take 2 u = ''0x'' \<or> take 2 u = ''0X'');
          v = (if hex then drop 2 u else u)
      in map_option (\<lambda>n. (neg, n)) (parseDigits (if hex then 16 else 10) v None))"

definition parseInt :: "string \<Rightarrow> int option" where
  "parseInt s = map_option (\<lambda>(neg, n). if neg then - int n else int n) (parseIntSigned s)"

subsection \<open>Division and \<^verbatim>\<open>toFixed(6)\<close>\<close>

text \<open>
  The result of an arithmetic operation is the double nearest to the exact result, the one with
  the even significand when two are equally near (IEEE 754 binary64: 53 significant bits, least
  exponent \<open>-1022\<close>, infinity from \<open>2^1024\<close> on). \<open>bitLength n\<close> is the number of binary digits
  of \<open>n\<close>, \<open>binaryExponent a\<close> the exponent \<open>e\<close> with \<open>2^e \<le> a < 2^(e+1)\<close> for a positive \<open>a\<close>,
  and \<open>toDouble r\<close> the double that the exact value \<open>r\<close> is rounded to.
\<close>

fun bitLength :: "nat \<Rightarrow> nat" where
  "bitLength n = (if n = 0 then 0 else Suc (bitLength (n div 2)))"

declare bitLength.simps [simp del]

definition binaryExponent :: "rat \<Rightarrow> int" where
  "binaryExponent a =
     (if 1 \<le> a then int (bitLength (nat \<lfloor>a\<rfloor>)) - 1
      else - int (bitLength (nat (\<lceil>1 / a\<rceil> - 1))))"

definition twoTo :: "int \<Rightarrow> rat" where
  "twoTo k = (if 0 \<le> k then 2 ^ nat k else 1 / 2 ^ nat (- k))"

definition roundHalfEven :: "rat \<Rightarrow> int" where
  "roundHalfEven x =
     (let f = \<lfloor>x\<rfloor>; r = x - of_int f
      in if r < 1 / 2 then f else if 1 / 2 < r then f + 1 else if even f then f else f + 1)"

definition toDouble :: "rat \<Rightarrow> jsnumber" where
  "toDouble r =
     (if r = 0 then Num 0
      else
        (let a = \<bar>r\<bar>;
             e = max (binaryExponent a) (- 1022);
             m = roundHalfEven (a / twoTo (e - 52));
             v = of_int m * twoTo (e - 52)
         in if 2 ^ 1024 \<le> v then (if r < 0 then NegInfinity else PosInfinity)
            else Num (if r < 0 then - v else v)))"

text \<open>
  \<^verbatim>\<open>duration / parseInt(sourceDuration)\<close> for a non-zero \<open>d\<close>, a GraphQL \<^verbatim>\<open>Int\<close> and so a double as
  it stands. \<^verbatim>\<open>NaN\<close> propagates; a zero divisor gives an infinity whose sign is the product of the
  two signs; otherwise the digits read by \<^verbatim>\<open>parseInt\<close> are rounded to a double and the quotient
  is rounded again. A divisor beyond the doubles is an infinity, and the quotient a zero.
\<close>

definition divideBy :: "int \<Rightarrow> (bool \<times> nat) option \<Rightarrow> jsnumber" where
  "divideBy d p =
     (case p of
        None \<Rightarrow> NaN
      | Some (neg, n) \<Rightarrow>
          if n = 0 then (if d = 0 then NaN else if (d < 0) = neg then PosInfinity else NegInfinity)
          else
            (case toDouble (of_nat n) of
               Num m \<Rightarrow> toDouble (of_int d / (if neg then - m else m))
             | _ \<Rightarrow> Num 0))"

text \<open>
  \<^verbatim>\<open>x.toFixed(6)\<close> of a double \<open>x\<close>: the sign, then the integer \<open>n\<close> nearest to \<open>|x| * 10^6\<close> (the
  larger one of two nearest), written with at least seven digits and a point before the last
  six. From \<open>10^21\<close> on the method falls back to \<^verbatim>\<open>String(x)\<close>.
\<close>

definition toFixed6 :: "(rat \<Rightarrow> string) \<Rightarrow> jsnumber \<Rightarrow> string" where
  "toFixed6 numberToString x =
     (case x of
        NaN \<Rightarrow> ''NaN''
      | PosInfinity \<Rightarrow> ''Infinity''
      | NegInfinity \<Rightarrow> ''-Infinity''
      | Num r \<Rightarrow>
          if \<bar>r\<bar> \<ge> 10 ^ 21 then toStringNumber numberToString (Num r)
          else
            (let n = nat \<lfloor>\<bar>r\<bar> * 1000000 + 1 / 2\<rfloor>;
                 ds = showNat n;
                 padded = replicate (7 - length ds) (CHR ''0'') @ ds
             in (if r < 0 then ''-'' else []) @ take (length padded - 6) padded @ ''.''
                  @ drop (length padded - 6) padded))"

subsection \<open>Strings\<close>

text \<open>\<^verbatim>\<open>hay.indexOf(pat) !== -1\<close>.\<close>

fun isSubstring :: "string \<Rightarrow> string \<Rightarrow> bool" where
  "isSubstring pat [] = (pat = [])"
| "isSubstring pat (c # cs) = (take (length pat) (c # cs) = pat \<or> isSubstring pat cs)"

text \<open>\<^verbatim>\<open>xs.join()\<close>: the elements separated by commas.\<close>

fun joinComma :: "string list \<Rightarrow> string" where
  "joinComma [] = []"
| "joinComma [x] = x"
| "joinComma (x # y # ys) = x @ '','' @ joinComma (y # ys)"

text \<open>\<^verbatim>\<open>xs.filter(Boolean)\<close> on an array of strings and falsy values (\<open>None\<close>).\<close>

definition filterBoolean :: "string option list \<Rightarrow> string list" where
  "filterBoolean xs = List.map_filter (\<lambda>x. x) xs"

definition startsWith :: "string \<Rightarrow> string \<Rightarrow> bool" where
  "startsWith pre s = (take (length pre) s = pre)"

section \<open>Probed stream metadata and field arguments\<close>

text \<open>
  The \<^verbatim>\<open>duration\<close> of a probed stream. The typings declare a string; the prober's output is
  read line by line, and a value written as digits with at most one decimal point arrives as a
  number, any other value (\<^verbatim>\<open>N/A\<close> for a stream whose duration the container does not record) as
  the string it is.
\<close>

datatype probedValue = ProbedNumber jsnumber | ProbedString string

text \<open>Truthiness: a number unless it is zero or \<^verbatim>\<open>NaN\<close>, a string unless it is empty.\<close>

definition truthyProbed :: "probedValue \<Rightarrow> bool" where
  "truthyProbed v =
     (case v of
        ProbedNumber x \<Rightarrow> x \<noteq> Num 0 \<and> x \<noteq> NaN
      | ProbedString s \<Rightarrow> s \<noteq> [])"

text \<open>The string that \<^verbatim>\<open>parseInt\<close> reads: its argument passes through \<^verbatim>\<open>String\<close> first.\<close>

definition probedToString :: "(rat \<Rightarrow> string) \<Rightarrow> probedValue \<Rightarrow> string" where
  "probedToString numberToString v =
     (case v of
        ProbedNumber x \<Rightarrow> toStringNumber numberToString x
      | ProbedString s \<Rightarrow> s)"

text \<open>The fields of fluent-ffmpeg's \<^verbatim>\<open>FfprobeStream\<close> that the sources read.\<close>

record ffprobeStream =
  codec_type :: "string js"
  r_frame_rate :: "string js"
  width :: "int js"
  height :: "int js"
  stream_duration :: "probedValue js"

record videoStreamMetadata =
  videoStream :: ffprobeStream
  currentFps :: "int option"

text \<open>
  \<^verbatim>\<open>DefaultTransformerFieldArgs\<close>, \<^verbatim>\<open>H264TransformerFieldArgs\<close> (the H265 interface has the same
  fields) and \<^verbatim>\<open>VP9TransformerFieldArgs\<close> of \<^verbatim>\<open>types.ts\<close>.
\<close>

record defaultTransformerFieldArgs =
  maxWidth :: "int js"
  maxHeight :: "int js"
  duration :: "int js"
  fps :: "int js"
  saturation :: "rat js"
  overlay :: "string js"
  overlayX :: "string js"
  overlayY :: "string js"
  overlayPadding :: "int js"
  publicPath :: "string js"

record h264TransformerFieldArgs = defaultTransformerFieldArgs +
  crf :: "int js"
  preset :: "string js"
  maxRate :: "string js"
  bufSize :: "string js"

record vp9TransformerFieldArgs = h264TransformerFieldArgs +
  bitRate :: "string js"
  minRate :: "string js"
  cpuUsed :: "int js"

section \<open>The filter graph builder\<close>

subsection \<open>\<^verbatim>\<open>FFMPEG.generateScaleFilter\<close>\<close>

text \<open>
  The two template literals, for \<open>w\<close> the \<^verbatim>\<open>maxWidth\<close> and \<open>h\<close> the \<^verbatim>\<open>maxHeight\<close>, with \<open>CHR 0x27\<close> the single quote and \<open>CHR 0x5C\<close> the backslash
  that the source writes as \<^verbatim>\<open>\\\<close> before each comma.
\<close>

definition generateScaleFilter :: "int js \<Rightarrow> int js \<Rightarrow> string" where
  "generateScaleFilter w h =
     (if \<not> truthyNum h
      then [CHR 0x27] @ ''min('' @ templateInt w @ '',iw)'' @ [CHR 0x27] @ '':-2:flags=lanczos''
      else [CHR 0x27] @ ''min(iw*min(1'' @ [CHR 0x5C] @ '',min('' @ templateInt w @ ''/iw''
             @ [CHR 0x5C] @ '','' @ templateInt h @ ''/ih)), iw)'' @ [CHR 0x27]
             @ '':-2:flags=lanczos'')"

subsection \<open>\<^verbatim>\<open>FFMPEG.createFilters\<close>\<close>

text \<open>
  One overlay coordinate: \<open>v\<close> is \<^verbatim>\<open>overlayX\<close> or \<^verbatim>\<open>overlayY\<close>, \<open>centre\<close> and \<open>endPrefix\<close> the two
  strings of that axis. The three \<^verbatim>\<open>if\<close>s of the source run one after the other; once the
  first has replaced \<^verbatim>\<open>start\<close> by the padding's digits the other two cannot match.
  \<^verbatim>\<open>padding.toString()\<close> on \<^verbatim>\<open>null\<close> is a TypeError.
\<close>

definition overlayCoordinate :: "string \<Rightarrow> string \<Rightarrow> int js \<Rightarrow> string js \<Rightarrow> error + string" where
  "overlayCoordinate centre endPrefix padding v =
     (let c = (if v = Undefined then Val ''center'' else v) in
      if c = Val ''start'' then
        (case padding of
           Val n \<Rightarrow> Inr (showInt n)
         | _ \<Rightarrow> Inl (TypeError ''Cannot read properties of null (reading toString)''))
      else if c = Val ''center'' then Inr centre
      else if c = Val ''end'' then Inr (endPrefix @ templateInt padding)
      else Inr (templateStr c))"

text \<open>
  \<open>streams\<close> is \<^verbatim>\<open>info.streams\<close>. Destructuring \<^verbatim>\<open>info.streams[0]\<close> of an empty array is a
  TypeError. The five \<^verbatim>\<open>filters.push\<close> blocks follow in the order of the source.
\<close>

definition createFilters ::
  "(rat \<Rightarrow> string) \<Rightarrow> 'a defaultTransformerFieldArgs_scheme \<Rightarrow> ffprobeStream list
     \<Rightarrow> error + string list" where
  "createFilters numberToString fieldArgs streams =
     (case streams of
        [] \<Rightarrow> Inl (TypeError ''Cannot destructure property duration of undefined'')
      | first # _ \<Rightarrow>
          (let sourceDuration = stream_duration first;
               filters1 =
                 (case (duration fieldArgs, sourceDuration) of
                    (Val d, Val sd) \<Rightarrow>
                      if d \<noteq> 0 \<and> truthyProbed sd
                      then [''setpts=''
                              @ toFixed6 numberToString
                                  (divideBy d (parseIntSigned (probedToString numberToString sd)))
                              @ ''*PTS'']
                      else []
                  | _ \<Rightarrow> []);
               filters2 = filters1 @
                 (if truthyNum (fps fieldArgs) then [''fps='' @ templateInt (fps fieldArgs)] else []);
               filters3 = filters2 @
                 (if truthyNum (maxWidth fieldArgs) \<or> truthyNum (maxHeight fieldArgs)
                  then [''scale='' @ generateScaleFilter (maxWidth fieldArgs) (maxHeight fieldArgs)]
                  else []);
               filters4 = filters3 @
                 (if saturation fieldArgs \<noteq> Val 1
                  then [''eq=saturation='' @ templateFloat numberToString (saturation fieldArgs)]
                  else [])
           in if truthyStr (overlay fieldArgs) then
                (let padding = (if overlayPadding fieldArgs = Undefined then Val 10
                                else overlayPadding fieldArgs)
                 in case overlayCoordinate ''(main_w-overlay_w)/2'' ''main_w-overlay_w-'' padding
                           (overlayX fieldArgs) of
                      Inl e \<Rightarrow> Inl e
                    | Inr x \<Rightarrow>
                        (case overlayCoordinate ''(main_h-overlay_h)/2'' ''main_h-overlay_h-'' padding
                                (overlayY fieldArgs) of
                           Inl e \<Rightarrow> Inl e
                         | Inr y \<Rightarrow> Inr (filters4 @ [''overlay=x='' @ x @ '':y='' @ y])))
              else Inr filters4))"

text \<open>The five kinds of stage, in the order the spec names them; anything else ranks last.\<close>

definition stageRank :: "string \<Rightarrow> nat" where
  "stageRank s =
     (if startsWith ''setpts='' s then 0
      else if startsWith ''fps='' s then 1
      else if startsWith ''scale='' s then 2
      else if startsWith ''eq=saturation='' s then 3
      else if startsWith ''overlay='' s then 4
      else 5)"

subsection \<open>\<^verbatim>\<open>FFMPEG.parseVideoStream\<close>\<close>

text \<open>
  \<^verbatim>\<open>streams.find\<close> returns the first stream whose \<^verbatim>\<open>codec_type\<close> is \<^verbatim>\<open>video\<close>; the frame rate is
  read from that stream only. \<^verbatim>\<open>split('/')[0]\<close> is the text before the first slash.
\<close>

definition parseVideoStream :: "ffprobeStream list \<Rightarrow> error + videoStreamMetadata" where
  "parseVideoStream streams =
     (case find (\<lambda>stream. codec_type stream = Val ''video'') streams of
        None \<Rightarrow> Inl (Error ''Could not parse video'')
      | Some vs \<Rightarrow>
          (case r_frame_rate vs of
             Val r \<Rightarrow>
               if r = [] then Inl (Error ''Could not parse video'')
               else Inr \<lparr>videoStream = vs,
                         currentFps = parseInt (takeWhile (\<lambda>c. c \<noteq> CHR ''/'') r)\<rparr>
           | _ \<Rightarrow> Inl (Error ''Could not parse video'')))"

section \<open>Encoding profiles\<close>

text \<open>
  What a profile and \<^verbatim>\<open>enhanceFfmpegForFilters\<close> set on the fluent-ffmpeg session. An input is
  either a path given as it is or the arguments of a \<^verbatim>\<open>path.resolve\<close> call.
\<close>

datatype ffmpegInput = InputPath string | InputResolve string string

record ffmpegCommand =
  inputs :: "ffmpegInput list"
  videoCodec :: "string option"
  complexFilter :: "string list"
  outputOptions :: "string list"
  audioCodec :: "string option"
  audioQuality :: "int option"
  audioChannels :: "int option"
  noAudio :: bool
  outputDuration :: "int option"

text \<open>\<^verbatim>\<open>ffmpeg().input(sourcePath)\<close>.\<close>

definition newSession :: "string \<Rightarrow> ffmpegCommand" where
  "newSession sourcePath =
     \<lparr>inputs = [InputPath sourcePath], videoCodec = None, complexFilter = [], outputOptions = [],
      audioCodec = None, audioQuality = None, audioChannels = None, noAudio = False,
      outputDuration = None\<rparr>"

text \<open>\<^verbatim>\<open>fps || currentFps\<close>.\<close>

definition fpsOrCurrent :: "int js \<Rightarrow> int option \<Rightarrow> int option" where
  "fpsOrCurrent f current = (case f of Val n \<Rightarrow> if n \<noteq> 0 then Some n else current | _ \<Rightarrow> current)"

text \<open>\<^verbatim>\<open>v && `prefix${v}`\<close> for a number and for a string.\<close>

definition optInt :: "string \<Rightarrow> int js \<Rightarrow> string option" where
  "optInt prefix v = (if truthyNum v then Some (prefix @ templateInt v) else None)"

definition optStr :: "string \<Rightarrow> string js \<Rightarrow> string option" where
  "optStr prefix v = (if truthyStr v then Some (prefix @ templateStr v) else None)"

subsection \<open>\<^verbatim>\<open>profileH264\<close>\<close>

text \<open>The \<^verbatim>\<open>-bf\<close> entry of the source ends in a tab character (\<open>CHR 0x09\<close>).\<close>

definition h264OutputOptions :: "'a h264TransformerFieldArgs_scheme \<Rightarrow> int option \<Rightarrow> string list" where
  "h264OutputOptions fieldArgs current =
     filterBoolean
       [optInt ''-crf '' (crf fieldArgs),
        optStr ''-preset '' (preset fieldArgs),
        (if \<not> truthyNum (crf fieldArgs) then optStr ''-maxrate '' (maxRate fieldArgs) else None),
        (if \<not> truthyNum (crf fieldArgs) then optStr ''-bufsize '' (bufSize fieldArgs) else None),
        Some ''-movflags +faststart'',
        Some ''-profile:v high'',
        Some (''-bf 2'' @ [CHR 0x09]),
        Some (''-g '' @ showNum (map_option (\<lambda>x. x div 2) (fpsOrCurrent (fps fieldArgs) current))),
        Some ''-coder 1'',
        Some ''-pix_fmt yuv420p'']"


subsection \<open>\<^verbatim>\<open>profileH265\<close>\<close>

definition h265OutputOptions :: "'a h264TransformerFieldArgs_scheme \<Rightarrow> int option \<Rightarrow> string list" where
  "h265OutputOptions fieldArgs current =
     filterBoolean
       [optInt ''-crf '' (crf fieldArgs),
        optStr ''-preset '' (preset fieldArgs),
        (if \<not> truthyNum (crf fieldArgs) \<and> truthyStr (maxRate fieldArgs) \<and> truthyStr (bufSize fieldArgs)
         then Some (''-x265-params vbv-maxrate='' @ templateStr (maxRate fieldArgs)
                      @ '':vbv-bufsize='' @ templateStr (bufSize fieldArgs))
         else None),
        Some ''-movflags +faststart'',
        Some ''-bf 2'',
        Some (''-g '' @ showNum (map_option (\<lambda>x. x div 2) (fpsOrCurrent (fps fieldArgs) current))),
        Some ''-pix_fmt yuv420p'',
        Some ''-tag:v hvc1'']"


subsection \<open>\<^verbatim>\<open>profileVP9\<close>\<close>

text \<open>
  \<^verbatim>\<open>bitrateMap\<close>, its keys in the order \<^verbatim>\<open>Object.keys\<close> lists integer keys (ascending); each entry
  is the triplet target, minimum, maximum.
\<close>

definition bitrateMap :: "(int \<times> (int \<times> string \<times> string \<times> string) list) list" where
  "bitrateMap =
     [(240, [(30, ''150k'', ''75k'', ''218k'')]),
      (360, [(30, ''276k'', ''138k'', ''400k'')]),
      (480, [(30, ''750k'', ''375k'', ''1088k'')]),
      (720, [(30, ''1024k'', ''512k'', ''1485k''), (60, ''1800k'', ''900k'', ''2610k'')]),
      (1080, [(30, ''1800k'', ''900k'', ''2610k''), (60, ''3000k'', ''1500k'', ''4350k'')]),
      (1440, [(30, ''6000k'', ''3000k'', ''8700k''), (60, ''9000k'', ''4500k'', ''13050k'')]),
      (2160, [(30, ''12000k'', ''6000k'', ''17400k''), (60, ''18000k'', ''9000k'', ''26100k'')])]"

text \<open>
  The callback of both \<^verbatim>\<open>reduce\<close> calls: \<^verbatim>\<open>Math.abs(curr - t) < Math.abs(prev - t) ? curr : prev\<close>.
  A comparison with \<^verbatim>\<open>NaN\<close> is false. The accumulator starts at \<open>0\<close>.
\<close>

definition closerStep :: "int option \<Rightarrow> int \<Rightarrow> int \<Rightarrow> int" where
  "closerStep target prev cur =
     (case target of
        None \<Rightarrow> prev
      | Some t \<Rightarrow> if \<bar>cur - t\<bar> < \<bar>prev - t\<bar> then cur else prev)"

definition closest :: "int option \<Rightarrow> int list \<Rightarrow> int" where
  "closest target keys = foldl (closerStep target) 0 keys"

text \<open>\<^verbatim>\<open>v || 0\<close> for a stream dimension.\<close>

definition orZero :: "int js \<Rightarrow> int" where
  "orZero v = (case v of Val n \<Rightarrow> n | _ \<Rightarrow> 0)"

text \<open>
  \<^verbatim>\<open>explicit || bucket[i]\<close>: the bucket is only read when the explicit rate is falsy, and
  reading an index of \<^verbatim>\<open>undefined\<close> is a TypeError.
\<close>

definition rateOr :: "string js \<Rightarrow> string option \<Rightarrow> error + string" where
  "rateOr explicit bucket =
     (if truthyStr explicit then Inr (templateStr explicit)
      else case bucket of
             None \<Rightarrow> Inl (TypeError ''Cannot read properties of undefined'')
           | Some r \<Rightarrow> Inr r)"

definition profileVP9 ::
  "ffmpegCommand \<Rightarrow> string list \<Rightarrow> 'a vp9TransformerFieldArgs_scheme \<Rightarrow> videoStreamMetadata
     \<Rightarrow> error + ffmpegCommand" where
  "profileVP9 ffmpegSession filters fieldArgs videoStreamMetadata =
     (let dimensionMin = min (orZero (width (videoStream videoStreamMetadata)))
                             (orZero (height (videoStream videoStreamMetadata)));
          appliedFps = fpsOrCurrent (fps fieldArgs) (currentFps videoStreamMetadata);
          closestResolution = closest (Some dimensionMin) (map fst bitrateMap)
      in case map_of bitrateMap closestResolution of
           None \<Rightarrow> Inl (TypeError ''Cannot convert undefined or null to object'')
         | Some byFps \<Rightarrow>
             (let closestFps = closest appliedFps (map fst byFps);
                  bucket = map_of byFps closestFps
              in case rateOr (bitRate fieldArgs) (map_option fst bucket) of
                   Inl e \<Rightarrow> Inl e
                 | Inr appliedBitrate \<Rightarrow>
                     (case rateOr (minRate fieldArgs) (map_option (fst \<circ> snd) bucket) of
                        Inl e \<Rightarrow> Inl e
                      | Inr appliedMinrate \<Rightarrow>
                          (case rateOr (maxRate fieldArgs) (map_option (snd \<circ> snd) bucket) of
                             Inl e \<Rightarrow> Inl e
                           | Inr appliedMaxrate \<Rightarrow>
                               Inr (ffmpegSession
                                 \<lparr>videoCodec := Some ''libvpx-vp9'',
                                  complexFilter := complexFilter ffmpegSession @ [joinComma filters],
                                  outputOptions := outputOptions ffmpegSession @
                                    filterBoolean
                                      [optInt ''-crf '' (crf fieldArgs),
                                       Some (''-b:v '' @ appliedBitrate),
                                       Some (''-minrate '' @ appliedMinrate),
                                       Some (''-maxrate '' @ appliedMaxrate),
                                       Some (''-cpu-used '' @ templateInt (cpuUsed fieldArgs)),
                                       Some (''-g '' @ showNum (map_option (\<lambda>x. x * 8) appliedFps)),
                                       Some ''-pix_fmt yuv420p''],
                                  audioCodec := Some ''libopus''\<rparr>)))))"

subsection \<open>\<^verbatim>\<open>profileWebP\<close> and \<^verbatim>\<open>profileGif\<close>\<close>

definition profileWebP ::
  "ffmpegCommand \<Rightarrow> string list \<Rightarrow> 'a defaultTransformerFieldArgs_scheme \<Rightarrow> videoStreamMetadata
     \<Rightarrow> error + ffmpegCommand" where
  "profileWebP ffmpegSession filters fieldArgs videoStreamMetadata =
     Inr (ffmpegSession
       \<lparr>videoCodec := Some ''libwebp'',
        complexFilter := complexFilter ffmpegSession @ [joinComma filters],
        outputOptions := outputOptions ffmpegSession
                           @ [''-preset picture'', ''-compression_level 6'', ''-loop 0''],
        noAudio := True\<rparr>)"

definition profileGif ::
  "ffmpegCommand \<Rightarrow> string list \<Rightarrow> 'a defaultTransformerFieldArgs_scheme \<Rightarrow> videoStreamMetadata
     \<Rightarrow> error + ffmpegCommand" where
  "profileGif ffmpegSession filters fieldArgs videoStreamMetadata =
     Inr (ffmpegSession
       \<lparr>videoCodec := Some ''gif'',
        complexFilter := complexFilter ffmpegSession
          @ [joinComma (filters @ [''split [a][b]'', ''[a] palettegen [p]'', ''[b][p] paletteuse''])],
        noAudio := True\<rparr>)"

section \<open>The transcode executor and the conversion job\<close>

subsection \<open>\<^verbatim>\<open>FFMPEG.enhanceFfmpegForFilters\<close>\<close>


subsection \<open>\<^verbatim>\<open>executeFfmpeg\<close>\<close>



subsection \<open>\<^verbatim>\<open>FFMPEG.convertVideo\<close>\<close>




section \<open>Cache keys and the resolver\<close>

subsection \<open>Video nodes\<close>

text \<open>
  \<^verbatim>\<open>VideoNode\<close> of \<^verbatim>\<open>types.ts\<close>. A \<^verbatim>\<open>File\<close> node has no \<^verbatim>\<open>file\<close> object and a Contentful asset no
  \<^verbatim>\<open>base\<close>, so both are optional here. \<open>nodeId\<close> is the field \<^verbatim>\<open>id\<close>, \<open>nodeFile\<close> the field \<^verbatim>\<open>file\<close>, \<open>detailsSize\<close> is
  \<^verbatim>\<open>file.details.size\<close>.
\<close>

datatype internalType = TypeFile | TypeContentfulAsset

record videoNodeInternal =
  internalType :: internalType
  contentDigest :: string
  mediaType :: "string js"

record videoNodeContentfulFile =
  url :: string
  fileName :: string
  detailsSize :: string
  contentType :: "string js"

record videoNode =
  internal :: videoNodeInternal
  nodeId :: string
  absolutePath :: "string js"
  nodeFile :: "videoNodeContentfulFile js"
  contentful_id :: string
  base :: "string js"

subsection \<open>Argument objects and their digest\<close>

text \<open>
  A JavaScript value as \<^verbatim>\<open>createContentDigest\<close> receives it. An object is the list of its
  entries in insertion order, with no key twice.
\<close>

datatype jsvalue =
    JUndefined
  | JNull
  | JNumber rat
  | JString string
  | JArray "jsvalue list"
  | JObject "(string \<times> jsvalue) list"

text \<open>
  Modelled from the spec: \<^verbatim>\<open>createContentDigest\<close> is imported from \<^verbatim>\<open>gatsby-core-utils\<close> and is
  not among the sources. The spec's contract for key derivation is "deterministic and
  order-independent over OptionSet fields (equivalent to canonicalizing the option map before
  hashing)": the entries of an object are put in the order of their keys, and the hash
  \<open>digest\<close> of the runtime is taken of the result.
\<close>

definition canonicalize :: "jsvalue \<Rightarrow> jsvalue" where
  "canonicalize v = (case v of JObject entries \<Rightarrow> JObject (sort_key fst entries) | _ \<Rightarrow> v)"

definition createContentDigest :: "(jsvalue \<Rightarrow> string) \<Rightarrow> jsvalue \<Rightarrow> string" where
  "createContentDigest digest v = digest (canonicalize v)"

subsection \<open>The runtime around the resolver\<close>

text \<open>
  What the resolver calls outside this repository: the hash behind \<^verbatim>\<open>createContentDigest\<close>,
  \<^verbatim>\<open>path.parse\<close> (its \<^verbatim>\<open>name\<close> and \<^verbatim>\<open>ext\<close>), \<^verbatim>\<open>path.resolve\<close> below a directory,
  \<^verbatim>\<open>queueFetchRemoteFile\<close> (url and extension to the local path, or a rejection) and
  \<^verbatim>\<open>executeFfprobe\<close> (path to the probed streams, or a rejection).
\<close>

record runtime =
  digest :: "jsvalue \<Rightarrow> string"
  parseName :: "string \<Rightarrow> string"
  parseExt :: "string \<Rightarrow> string"
  resolveBelow :: "path \<Rightarrow> string \<Rightarrow> path"
  queueFetchRemoteFile :: "string \<Rightarrow> string \<Rightarrow> error + string"
  executeFfprobe :: "string \<Rightarrow> error + ffprobeStream list"

subsection \<open>\<^verbatim>\<open>analyzeAndFetchVideo\<close>\<close>

text \<open>
  The result is \<^verbatim>\<open>{ path, filename, info }\<close>, with \<^verbatim>\<open>info\<close> given by its streams. \<open>fieldArgs\<close> is
  the argument object as the resolver received it.
\<close>

definition analyzeAndFetchVideo ::
  "runtime \<Rightarrow> videoNode \<Rightarrow> jsvalue \<Rightarrow> internalType
     \<Rightarrow> error + (string \<times> string \<times> ffprobeStream list)" where
  "analyzeAndFetchVideo rt video fieldArgs ty =
     (case (if truthyStr (base video) then Inr (templateStr (base video))
            else case nodeFile video of
                   Val f \<Rightarrow> Inr (fileName f)
                 | _ \<Rightarrow> Inl (TypeError ''Cannot read properties of undefined (reading fileName)'')) of
        Inl e \<Rightarrow> Inl e
      | Inr baseName \<Rightarrow>
          (let name = parseName rt baseName in
           case (case ty of
                   TypeFile \<Rightarrow> Inr (absolutePath video, contentDigest (internal video))
                 | TypeContentfulAsset \<Rightarrow>
                     (case nodeFile video of
                        Val f \<Rightarrow>
                          (case queueFetchRemoteFile rt (''https:'' @ url f) (parseExt rt (fileName f)) of
                             Inl e \<Rightarrow> Inl e
                           | Inr p \<Rightarrow>
                               Inr (Val p,
                                    createContentDigest (digest rt)
                                      (JArray [JString (contentful_id video), JString (url f),
                                               JString (detailsSize f)])))
                      | _ \<Rightarrow> Inl (TypeError ''Cannot read properties of undefined (reading fileName)''))) of
             Inl e \<Rightarrow> Inl e
           | Inr (p, contentDigest') \<Rightarrow>
               if \<not> truthyStr p
               then Inl (Error ''Unable to locate video file'')
               else
                 (let optionsHash = createContentDigest (digest rt) fieldArgs;
                      filename = name @ ''-'' @ contentDigest' @ ''-'' @ optionsHash
                  in case executeFfprobe rt (templateStr p) of
                       Inl e \<Rightarrow> Inl e
                     | Inr info \<Rightarrow> Inr (templateStr p, filename, info))))"

subsection \<open>\<^verbatim>\<open>prepareAndAnalyzeVideo\<close>\<close>

text \<open>\<^verbatim>\<open>fieldArgs.publicPath\<close> of an argument object; \<^verbatim>\<open>path.resolve\<close> rejects what is not a string.\<close>

definition publicPathOf :: "jsvalue \<Rightarrow> error + string" where
  "publicPathOf fieldArgs =
     (case fieldArgs of
        JObject entries \<Rightarrow>
          (case map_of entries ''publicPath'' of
             Some (JString p) \<Rightarrow> Inr p
           | _ \<Rightarrow> Inl (TypeError ''The path argument must be of type string''))
      | _ \<Rightarrow> Inl (TypeError ''The path argument must be of type string''))"

text \<open>The result is \<^verbatim>\<open>{ publicDir, path, name, info }\<close>.\<close>

definition prepareAndAnalyzeVideo ::
  "runtime \<Rightarrow> path \<Rightarrow> videoNode \<Rightarrow> jsvalue \<Rightarrow> filesystem
     \<Rightarrow> (error + (path \<times> string \<times> string \<times> ffprobeStream list)) \<times> filesystem" where
  "prepareAndAnalyzeVideo rt rootDir video fieldArgs fs =
     (let ty = internalType (internal video) in
      case (case ty of
              TypeFile \<Rightarrow> Inr (mediaType (internal video))
            | TypeContentfulAsset \<Rightarrow>
                (case nodeFile video of
                   Val f \<Rightarrow> Inr (contentType f)
                 | _ \<Rightarrow> Inl (TypeError ''Cannot read properties of undefined (reading contentType)''))) of
        Inl e \<Rightarrow> (Inl e, fs)
      | Inr fileType \<Rightarrow>
          if \<not> truthyStr fileType
          then (Inl (Error ''Unable to extract asset file type''), fs)
          else if \<not> isSubstring ''video/'' (templateStr fileType)
          then (Inl WrongFileTypeError, fs)
          else
            (case analyzeAndFetchVideo rt video fieldArgs ty of
               Inl e \<Rightarrow> (Inl e, fs)
             | Inr (p, name, info) \<Rightarrow>
                 (case publicPathOf fieldArgs of
                    Inl e \<Rightarrow> (Inl e, fs)
                  | Inr pp \<Rightarrow>
                      (let publicDir = resolveBelow rt (rootDir @ [''public'']) pp in
                       case ensureDir publicDir fs of
                         Inl e \<Rightarrow> (Inl e, fs)
                       | Inr fs1 \<Rightarrow> (Inr (publicDir, p, name, info), fs1)))))"

subsection \<open>\<^verbatim>\<open>resolveVideo\<close>\<close>

text \<open>
  The resolver that \<^verbatim>\<open>resolveVideo({ transformer })\<close> returns. \<open>transformer\<close> is the function it was
  given, \<open>processResult\<close> the helper of that name; both may reject. The \<^verbatim>\<open>try\<close> block spans all
  three calls, and the \<^verbatim>\<open>catch\<close> turns a \<open>WrongFileTypeError\<close> into \<^verbatim>\<open>null\<close> (\<open>None\<close>) and throws
  anything else again.
\<close>

definition catchWrongFileType :: "(error + 'r) \<times> filesystem \<Rightarrow> (error + 'r option) \<times> filesystem" where
  "catchWrongFileType outcome =
     (case outcome of
        (Inl err, fs) \<Rightarrow> if err \<noteq> WrongFileTypeError then (Inl err, fs) else (Inr None, fs)
      | (Inr r, fs) \<Rightarrow> (Inr (Some r), fs))"

definition resolveVideo ::
  "runtime \<Rightarrow> path
     \<Rightarrow> (videoNode \<Rightarrow> path \<Rightarrow> string \<Rightarrow> string \<Rightarrow> jsvalue \<Rightarrow> ffprobeStream list \<Rightarrow> filesystem
           \<Rightarrow> (error + path) \<times> filesystem)
     \<Rightarrow> (path \<Rightarrow> error + 'r)
     \<Rightarrow> videoNode \<Rightarrow> jsvalue \<Rightarrow> filesystem \<Rightarrow> (error + 'r option) \<times> filesystem" where
  "resolveVideo rt rootDir transformer processResult video fieldArgs fs =
     catchWrongFileType
       (case prepareAndAnalyzeVideo rt rootDir video fieldArgs fs of
          (Inl e, fs1) \<Rightarrow> (Inl e, fs1)
        | (Inr (publicDir, p, name, info), fs1) \<Rightarrow>
            (case transformer video publicDir p name fieldArgs info fs1 of
               (Inl e, fs2) \<Rightarrow> (Inl e, fs2)
             | (Inr publicFile, fs2) \<Rightarrow>
                 (case processResult publicFile of
                    Inl e \<Rightarrow> (Inl e, fs2)
                  | Inr r \<Rightarrow> (Inr r, fs2))))"

section \<open>Auxiliary notions for the statements\<close>

text \<open>The first \<^verbatim>\<open>filters.push\<close> block of \<open>createFilters\<close> on its own: the time-remap stage.\<close>

definition durationStage ::
  "(rat \<Rightarrow> string) \<Rightarrow> 'a defaultTransformerFieldArgs_scheme \<Rightarrow> ffprobeStream \<Rightarrow> string list" where
  "durationStage numberToString fieldArgs first =
     (case (duration fieldArgs, stream_duration first) of
        (Val d, Val sd) \<Rightarrow>
          if d \<noteq> 0 \<and> truthyProbed sd
          then [''setpts=''
                  @ toFixed6 numberToString
                      (divideBy d (parseIntSigned (probedToString numberToString sd)))
                  @ ''*PTS'']
          else []
      | _ \<Rightarrow> [])"

subsection \<open>Example inputs\<close>

definition exampleStream :: "string js \<Rightarrow> string js \<Rightarrow> ffprobeStream" where
  "exampleStream ct rate =
     \<lparr>codec_type = ct, r_frame_rate = rate, width = Val 1280, height = Val 720,
      stream_duration = Val (ProbedNumber (Num 10))\<rparr>"

definition exampleVideoStream :: "int \<Rightarrow> int \<Rightarrow> ffprobeStream" where
  "exampleVideoStream w h =
     \<lparr>codec_type = Val ''video'', r_frame_rate = Val ''30/1'', width = Val w, height = Val h,
      stream_duration = Val (ProbedNumber (Num 10))\<rparr>"

definition exampleStreamNoDuration :: ffprobeStream where
  "exampleStreamNoDuration =
     \<lparr>codec_type = Val ''video'', r_frame_rate = Val ''30/1'', width = Val 1280, height = Val 720,
      stream_duration = Undefined\<rparr>"

text \<open>A stream of a container that records no stream duration: the prober reports \<^verbatim>\<open>N/A\<close>.\<close>

definition exampleStreamUnknownDuration :: ffprobeStream where
  "exampleStreamUnknownDuration =
     \<lparr>codec_type = Val ''video'', r_frame_rate = Val ''30/1'', width = Val 1280, height = Val 720,
      stream_duration = Val (ProbedString ''N/A'')\<rparr>"

text \<open>The option set duration 2, fps 4, maxWidth 600, saturation 1, everything else at its default.\<close>

definition exampleFilterArgs :: defaultTransformerFieldArgs where
  "exampleFilterArgs =
     \<lparr>maxWidth = Val 600, maxHeight = Null, duration = Val 2, fps = Val 4, saturation = Val 1,
      overlay = Null, overlayX = Val ''center'', overlayY = Val ''center'', overlayPadding = Val 10,
      publicPath = Val ''static/videos''\<rparr>"

text \<open>The same option set with a saturation of 2 and an overlay image: all five stages apply.\<close>

definition exampleAllStagesArgs :: defaultTransformerFieldArgs where
  "exampleAllStagesArgs =
     \<lparr>maxWidth = Val 600, maxHeight = Null, duration = Val 2, fps = Val 4, saturation = Val 2,
      overlay = Val ''logo.png'', overlayX = Val ''center'', overlayY = Val ''center'',
      overlayPadding = Val 10, publicPath = Val ''static/videos''\<rparr>"

text \<open>The defaults of the \<^verbatim>\<open>videoH264\<close> field with a rate pair, for a given \<^verbatim>\<open>crf\<close>.\<close>

definition exampleH264Args :: "int js \<Rightarrow> h264TransformerFieldArgs" where
  "exampleH264Args c =
     \<lparr>maxWidth = Val 1920, maxHeight = Null, duration = Null, fps = Null, saturation = Val 1,
      overlay = Null, overlayX = Val ''center'', overlayY = Val ''center'', overlayPadding = Val 10,
      publicPath = Val ''static/videos'', crf = c, preset = Val ''medium'',
      maxRate = Val ''1M'', bufSize = Val ''2M''\<rparr>"

text \<open>The defaults of the \<^verbatim>\<open>videoVP9\<close> field with no explicit rates, for a given \<^verbatim>\<open>fps\<close>.\<close>

definition exampleVP9Args :: "int js \<Rightarrow> vp9TransformerFieldArgs" where
  "exampleVP9Args f =
     \<lparr>maxWidth = Val 1920, maxHeight = Null, duration = Null, fps = f, saturation = Val 1,
      overlay = Null, overlayX = Val ''center'', overlayY = Val ''center'', overlayPadding = Val 10,
      publicPath = Val ''static/videos'', crf = Val 31, preset = Undefined,
      maxRate = Undefined, bufSize = Undefined, bitRate = Undefined, minRate = Undefined,
      cpuUsed = Val 1\<rparr>"


text \<open>A hash that writes out the keys of an object in the order it is given them.\<close>

definition exampleDigest :: "jsvalue \<Rightarrow> string" where
  "exampleDigest v = (case v of JObject entries \<Rightarrow> concat (map fst entries) | _ \<Rightarrow> [])"

definition exampleRuntime :: runtime where
  "exampleRuntime =
     \<lparr>digest = exampleDigest,
      parseName = takeWhile (\<lambda>c. c \<noteq> CHR ''.''),
      parseExt = dropWhile (\<lambda>c. c \<noteq> CHR ''.''),
      resolveBelow = (\<lambda>dir p. dir @ [p]),
      queueFetchRemoteFile = (\<lambda>u ext. Inr (''/downloads/asset'' @ ext)),
      executeFfprobe = (\<lambda>p. Inr [exampleVideoStream 1280 720])\<rparr>"

text \<open>A \<^verbatim>\<open>File\<close> node \<^verbatim>\<open>clip.mp4\<close> with the given media type.\<close>

definition exampleVideo :: "string js \<Rightarrow> videoNode" where
  "exampleVideo mt =
     \<lparr>internal = \<lparr>internalType = TypeFile, contentDigest = ''abc123'', mediaType = mt\<rparr>,
      nodeId = ''node-1'', absolutePath = Val ''/site/clip.mp4'', nodeFile = Undefined,
      contentful_id = [], base = Val ''clip.mp4''\<rparr>"

definition exampleTransformer ::
  "videoNode \<Rightarrow> path \<Rightarrow> string \<Rightarrow> string \<Rightarrow> jsvalue \<Rightarrow> ffprobeStream list \<Rightarrow> filesystem
     \<Rightarrow> (error + path) \<times> filesystem" where
  "exampleTransformer video publicDir p name fieldArgs info fs = (Inr (publicDir @ [name]), fs)"

section \<open>Properties of the file system operations\<close>

lemma under_refl: "isUnder p p"
  by (simp add: isUnder_def)

lemma under_append: "isUnder p (p @ q)"
  by (simp add: isUnder_def)

lemma under_iff: "isUnder p q = (\<exists>r. q = p @ r)"
proof
  assume "isUnder p q"
  then have "q = p @ drop (length p) q"
    unfolding isUnder_def by (metis append_take_drop_id)
  then show "\<exists>r. q = p @ r" ..
next
  assume "\<exists>r. q = p @ r"
  then show "isUnder p q" by (auto simp: isUnder_def)
qed

lemma under_same_length: "length p = length q \<Longrightarrow> isUnder p q = (p = q)"
  by (auto simp: isUnder_def)

lemma separate_append: "separate a r \<Longrightarrow> separate (a @ x) (r @ y)"
proof -
  assume s: "separate a r"
  have "\<not> isUnder (a @ x) (r @ y)"
  proof
    assume "isUnder (a @ x) (r @ y)"
    then obtain z where "r @ y = a @ x @ z" by (auto simp: under_iff)
    then have "isUnder a r \<or> isUnder r a"
      by (auto simp: under_iff append_eq_append_conv2)
    with s show False by (simp add: separate_def)
  qed
  moreover have "\<not> isUnder (r @ y) (a @ x)"
  proof
    assume "isUnder (r @ y) (a @ x)"
    then obtain z where "a @ x = r @ y @ z" by (auto simp: under_iff)
    then have "isUnder a r \<or> isUnder r a"
      by (auto simp: under_iff append_eq_append_conv2)
    with s show False by (simp add: separate_def)
  qed
  ultimately show ?thesis by (simp add: separate_def)
qed

lemma move_ok:
  assumes "fs src \<noteq> None" "\<not> isUnder src dest" "dirsAbove dest fs" "fs dest = None"
  shows "move src dest fs =
           Inr (\<lambda>q. if isUnder dest q then fs (src @ drop (length dest) q)
                    else if isUnder src q then None
                    else if q \<in> set (ancestors dest) \<and> fs q = None then Some Dir
                    else fs q)"
  using assms by (simp add: move_def dirsAbove_def)

lemma ancestors_not_under: "a \<in> set (ancestors p) \<Longrightarrow> \<not> isUnder p a"
  by (auto simp: ancestors_def isUnder_def)

lemma dirsAbove_remove: "dirsAbove p (remove p fs) = dirsAbove p fs"
  by (auto simp: dirsAbove_def remove_def list_ex_iff ancestors_not_under)

lemma dirsAbove_exampleTiers: "dirsAbove [t, a, b] (exampleTiers tiers)"
  by (simp add: dirsAbove_def ancestors_def exampleTiers_def isFile_def upt_rec)

lemma dirsAbove_exampleTiers_top: "dirsAbove [t] (exampleTiers tiers)"
  by (simp add: dirsAbove_def ancestors_def exampleTiers_def isFile_def upt_rec)

section \<open>Restoring an artifact from the tiers\<close>

text \<open>
  Claim C2. For a cache key whose artifact exists only at its rolling-tier path,
  \<open>restoreFromCache\<close> returns a hit, the artifact (with everything below it, for a
  screenshot directory) is afterwards at the active-tier path, and nothing is left at the
  rolling-tier path: a move, not a copy. When the artifact is at the active-tier path the
  call returns a hit and leaves the file system, the rolling tier included, as it was. When
  it is at neither path the call returns a miss and changes nothing. The two paths are the
  ones \<open>convertVideo\<close> and \<open>takeScreenshots\<close> build, in two separate tier directories, and no
  regular file stands where the active tier's directories have to be created.
\<close>

theorem restoreFromCache_tiers:
  "(fs activePath = None \<and> fs rollingPath = Some n \<and> separate activePath rollingPath \<and>
      dirsAbove activePath fs \<longrightarrow>
      fst (restoreFromCache activePath rollingPath fs) = Inr True \<and>
      snd (restoreFromCache activePath rollingPath fs) activePath = Some n \<and>
      (\<forall>q. snd (restoreFromCache activePath rollingPath fs) (activePath @ q) = fs (rollingPath @ q)) \<and>
      (\<forall>q. snd (restoreFromCache activePath rollingPath fs) (rollingPath @ q) = None))
   \<and> (fs activePath \<noteq> None \<longrightarrow>
        restoreFromCache activePath rollingPath fs = (Inr True, fs))
   \<and> (fs activePath = None \<and> fs rollingPath = None \<longrightarrow>
        restoreFromCache activePath rollingPath fs = (Inr False, fs))"
proof (intro conjI impI)
  assume h: "fs activePath = None \<and> fs rollingPath = Some n \<and> separate activePath rollingPath \<and>
      dirsAbove activePath fs"
  then have m: "move rollingPath activePath fs =
           Inr (\<lambda>q. if isUnder activePath q then fs (rollingPath @ drop (length activePath) q)
                    else if isUnder rollingPath q then None
                    else if q \<in> set (ancestors activePath) \<and> fs q = None then Some Dir
                    else fs q)"
    by (intro move_ok) (auto simp: separate_def)
  have r: "restoreFromCache activePath rollingPath fs =
      (Inr True, (\<lambda>q. if isUnder activePath q then fs (rollingPath @ drop (length activePath) q)
                    else if isUnder rollingPath q then None
                    else if q \<in> set (ancestors activePath) \<and> fs q = None then Some Dir
                    else fs q))"
    using h by (simp add: restoreFromCache_def pathExists_def m)
  show "fst (restoreFromCache activePath rollingPath fs) = Inr True"
    by (simp add: r)
  show "snd (restoreFromCache activePath rollingPath fs) activePath = Some n"
    using h by (simp add: r under_refl)
  show "\<forall>q. snd (restoreFromCache activePath rollingPath fs) (activePath @ q) = fs (rollingPath @ q)"
    by (simp add: r under_append)
  have "\<not> isUnder activePath (rollingPath @ q)" for q
    using separate_append [of activePath rollingPath "[]" q] h by (simp add: separate_def)
  then show "\<forall>q. snd (restoreFromCache activePath rollingPath fs) (rollingPath @ q) = None"
    by (simp add: r under_append)
next
  assume "fs activePath \<noteq> None"
  then show "restoreFromCache activePath rollingPath fs = (Inr True, fs)"
    by (simp add: restoreFromCache_def pathExists_def)
next
  assume "fs activePath = None \<and> fs rollingPath = None"
  then show "restoreFromCache activePath rollingPath fs = (Inr False, fs)"
    by (simp add: restoreFromCache_def pathExists_def)
qed

text \<open>
  The three cases at the key \<^verbatim>\<open>clip-h264.mp4\<close>: only the rolling tier holds it, the active
  tier holds it, no tier holds it.
\<close>

theorem restoreFromCache_tiers_witness:
  "fst (restoreFromCache [''cache'', ''videos'', ''clip-h264.mp4'']
          [''cache-rolling'', ''videos'', ''clip-h264.mp4''] (exampleTiers [''cache-rolling''])) = Inr True
   \<and> snd (restoreFromCache [''cache'', ''videos'', ''clip-h264.mp4'']
          [''cache-rolling'', ''videos'', ''clip-h264.mp4''] (exampleTiers [''cache-rolling'']))
        [''cache'', ''videos'', ''clip-h264.mp4''] = Some (File ''made in cache-rolling'')
   \<and> snd (restoreFromCache [''cache'', ''videos'', ''clip-h264.mp4'']
          [''cache-rolling'', ''videos'', ''clip-h264.mp4''] (exampleTiers [''cache-rolling'']))
        [''cache-rolling'', ''videos'', ''clip-h264.mp4''] = None
   \<and> restoreFromCache [''cache'', ''videos'', ''clip-h264.mp4'']
          [''cache-rolling'', ''videos'', ''clip-h264.mp4''] (exampleTiers [''cache'', ''cache-rolling''])
        = (Inr True, exampleTiers [''cache'', ''cache-rolling''])
   \<and> restoreFromCache [''cache'', ''videos'', ''clip-h264.mp4'']
          [''cache-rolling'', ''videos'', ''clip-h264.mp4''] (exampleTiers [])
        = (Inr False, exampleTiers [])"
proof -
  let ?a = "[''cache'', ''videos'', ''clip-h264.mp4'']"
  let ?r = "[''cache-rolling'', ''videos'', ''clip-h264.mp4'']"
  have h1: "exampleTiers [''cache-rolling''] ?a = None \<and>
      exampleTiers [''cache-rolling''] ?r = Some (File ''made in cache-rolling'') \<and>
      separate ?a ?r \<and> dirsAbove ?a (exampleTiers [''cache-rolling''])"
    by (simp add: exampleTiers_def separate_def isUnder_def dirsAbove_exampleTiers)
  have h2: "exampleTiers [''cache'', ''cache-rolling''] ?a \<noteq> None"
    by (simp add: exampleTiers_def)
  have h3: "exampleTiers [] ?a = None \<and> exampleTiers [] ?r = None"
    by (simp add: exampleTiers_def)
  from restoreFromCache_tiers [of "exampleTiers [''cache-rolling'']" ?a ?r
      "File ''made in cache-rolling''"] h1
  have c1: "fst (restoreFromCache ?a ?r (exampleTiers [''cache-rolling''])) = Inr True \<and>
      snd (restoreFromCache ?a ?r (exampleTiers [''cache-rolling''])) ?a
        = Some (File ''made in cache-rolling'') \<and>
      (\<forall>q. snd (restoreFromCache ?a ?r (exampleTiers [''cache-rolling''])) (?r @ q) = None)"
    by blast
  then have "snd (restoreFromCache ?a ?r (exampleTiers [''cache-rolling''])) (?r @ []) = None"
    by blast
  then have c1': "snd (restoreFromCache ?a ?r (exampleTiers [''cache-rolling''])) ?r = None"
    by simp
  from restoreFromCache_tiers [of "exampleTiers [''cache'', ''cache-rolling'']" ?a ?r
      "File ''made in cache''"] h2
  have c2: "restoreFromCache ?a ?r (exampleTiers [''cache'', ''cache-rolling''])
      = (Inr True, exampleTiers [''cache'', ''cache-rolling''])"
    by blast
  from restoreFromCache_tiers [of "exampleTiers []" ?a ?r "File ''made in cache''"] h3
  have c3: "restoreFromCache ?a ?r (exampleTiers []) = (Inr False, exampleTiers [])"
    by blast
  from c1 c1' c2 c3 show ?thesis by blast
qed

section \<open>Reconciliation after the build\<close>

text \<open>
  Claim C3. In production, with two separate tier directories (and no regular file standing
  where the active tier's parent directories are), \<open>onPostBuild\<close> succeeds and leaves no
  rolling tier, whatever the tiers were before. If only the rolling tier existed, what was in
  the rolling tier is afterwards in the active tier (it was moved). If both existed, the
  result is the file system with the rolling tier removed.
\<close>

theorem onPostBuild_reconciles:
  assumes "separate cachePathActive cachePathRolling" and "dirsAbove cachePathActive fs"
  shows "fst (onPostBuild (Some ''production'') cachePathActive cachePathRolling fs) = Inr ()
    \<and> \<not> pathExists cachePathRolling
          (snd (onPostBuild (Some ''production'') cachePathActive cachePathRolling fs))
    \<and> (\<not> pathExists cachePathActive fs \<and> pathExists cachePathRolling fs \<longrightarrow>
         (\<forall>q. snd (onPostBuild (Some ''production'') cachePathActive cachePathRolling fs)
                 (cachePathActive @ q) = fs (cachePathRolling @ q)))
    \<and> (pathExists cachePathActive fs \<and> pathExists cachePathRolling fs \<longrightarrow>
         snd (onPostBuild (Some ''production'') cachePathActive cachePathRolling fs)
           = remove cachePathRolling fs)"
proof (cases "pathExists cachePathActive fs")
  case True
  then show ?thesis
    by (simp add: onPostBuild_def pathExists_def remove_def under_refl)
next
  case na: False
  show ?thesis
  proof (cases "pathExists cachePathRolling fs")
    case False
    with na show ?thesis by (simp add: onPostBuild_def)
  next
    case True
    have m: "move cachePathRolling cachePathActive fs =
           Inr (\<lambda>q. if isUnder cachePathActive q then fs (cachePathRolling @ drop (length cachePathActive) q)
                    else if isUnder cachePathRolling q then None
                    else if q \<in> set (ancestors cachePathActive) \<and> fs q = None then Some Dir
                    else fs q)"
      using na True assms by (intro move_ok) (auto simp: separate_def pathExists_def)
    show ?thesis
      using na True assms
      by (simp add: onPostBuild_def m under_refl under_append separate_def pathExists_def)
  qed
qed

text \<open>
  Only the rolling tier before the build's end: it becomes the active tier. Both tiers: the
  rolling tier is deleted and the active tier stays.
\<close>

theorem onPostBuild_reconciles_witness:
  "fst (onPostBuild (Some ''production'') [''cache''] [''cache-rolling'']
          (exampleTiers [''cache-rolling''])) = Inr ()
   \<and> snd (onPostBuild (Some ''production'') [''cache''] [''cache-rolling'']
          (exampleTiers [''cache-rolling''])) [''cache-rolling''] = None
   \<and> snd (onPostBuild (Some ''production'') [''cache''] [''cache-rolling'']
          (exampleTiers [''cache-rolling''])) [''cache'', ''videos'', ''clip-h264.mp4'']
        = Some (File ''made in cache-rolling'')
   \<and> snd (onPostBuild (Some ''production'') [''cache''] [''cache-rolling'']
          (exampleTiers [''cache'', ''cache-rolling''])) [''cache-rolling''] = None
   \<and> snd (onPostBuild (Some ''production'') [''cache''] [''cache-rolling'']
          (exampleTiers [''cache'', ''cache-rolling''])) [''cache'', ''videos'', ''clip-h264.mp4'']
        = Some (File ''made in cache'')"
proof -
  let ?a = "[''cache'']"
  let ?r = "[''cache-rolling'']"
  have s: "separate ?a ?r"
    by (simp add: separate_def isUnder_def)
  have e1: "\<not> pathExists ?a (exampleTiers [''cache-rolling'']) \<and>
      pathExists ?r (exampleTiers [''cache-rolling''])"
    by (simp add: pathExists_def exampleTiers_def)
  have e2: "pathExists ?a (exampleTiers [''cache'', ''cache-rolling'']) \<and>
      pathExists ?r (exampleTiers [''cache'', ''cache-rolling''])"
    by (simp add: pathExists_def exampleTiers_def)
  note r1 = onPostBuild_reconciles [OF s dirsAbove_exampleTiers_top [of "''cache''" "[''cache-rolling'']"]]
  note r2 = onPostBuild_reconciles [OF s dirsAbove_exampleTiers_top [of "''cache''" "[''cache'', ''cache-rolling'']"]]
  from r1 e1 have "\<forall>q. snd (onPostBuild (Some ''production'') ?a ?r (exampleTiers [''cache-rolling'']))
                 (?a @ q) = exampleTiers [''cache-rolling''] (?r @ q)"
    by blast
  then have "snd (onPostBuild (Some ''production'') ?a ?r (exampleTiers [''cache-rolling'']))
                 (?a @ [''videos'', ''clip-h264.mp4''])
               = exampleTiers [''cache-rolling''] (?r @ [''videos'', ''clip-h264.mp4''])"
    by blast
  then have c1: "snd (onPostBuild (Some ''production'') ?a ?r (exampleTiers [''cache-rolling'']))
                 [''cache'', ''videos'', ''clip-h264.mp4''] = Some (File ''made in cache-rolling'')"
    by (simp add: exampleTiers_def)
  from r2 e2 have "snd (onPostBuild (Some ''production'') ?a ?r (exampleTiers [''cache'', ''cache-rolling'']))
      = remove ?r (exampleTiers [''cache'', ''cache-rolling''])"
    by blast
  then have c2: "snd (onPostBuild (Some ''production'') ?a ?r (exampleTiers [''cache'', ''cache-rolling'']))
         [''cache'', ''videos'', ''clip-h264.mp4''] = Some (File ''made in cache'')"
    by (simp add: remove_def isUnder_def exampleTiers_def)
  from r1 r2 c1 c2 show ?thesis
    by (simp add: pathExists_def)
qed

section \<open>Tier rotation at the start of the build\<close>

text \<open>
  Claim C4. The rotation runs only when \<^verbatim>\<open>NODE_ENV\<close> is \<^verbatim>\<open>production\<close>: in any other environment
  \<open>onPreInit\<close> leaves the tiers as they are. In production, when no active tier exists nothing
  is rotated (the file system is unchanged). When an active tier exists (two separate tier
  directories, no regular file standing where the rolling tier's parents are), the hook
  succeeds and afterwards there is no active tier, the rolling tier holds exactly what the
  active tier held (so a rolling tier that existed before was deleted first), and every path
  outside the two tiers is as before.
\<close>

theorem onPreInit_rotates:
  "(nodeEnv \<noteq> Some ''production'' \<longrightarrow>
      onPreInit nodeEnv cachePathActive cachePathRolling fs = (Inr (), fs))
   \<and> (\<not> pathExists cachePathActive fs \<longrightarrow>
      onPreInit nodeEnv cachePathActive cachePathRolling fs = (Inr (), fs))
   \<and> (pathExists cachePathActive fs \<and> separate cachePathActive cachePathRolling \<and>
       dirsAbove cachePathRolling fs \<longrightarrow>
      fst (onPreInit (Some ''production'') cachePathActive cachePathRolling fs) = Inr () \<and>
      \<not> pathExists cachePathActive
          (snd (onPreInit (Some ''production'') cachePathActive cachePathRolling fs)) \<and>
      (\<forall>q. snd (onPreInit (Some ''production'') cachePathActive cachePathRolling fs)
              (cachePathRolling @ q) = fs (cachePathActive @ q)) \<and>
      (\<forall>q. snd (onPreInit (Some ''production'') cachePathActive cachePathRolling fs)
              (cachePathActive @ q) = None) \<and>
      (\<forall>q. \<not> isUnder cachePathActive q \<and> \<not> isUnder cachePathRolling q \<and>
            q \<notin> set (ancestors cachePathRolling) \<longrightarrow>
            snd (onPreInit (Some ''production'') cachePathActive cachePathRolling fs) q = fs q))"
proof (intro conjI impI)
  assume "nodeEnv \<noteq> Some ''production''"
  then show "onPreInit nodeEnv cachePathActive cachePathRolling fs = (Inr (), fs)"
    by (simp add: onPreInit_def)
next
  assume "\<not> pathExists cachePathActive fs"
  then show "onPreInit nodeEnv cachePathActive cachePathRolling fs = (Inr (), fs)"
    by (simp add: onPreInit_def)
next
  assume h: "pathExists cachePathActive fs \<and> separate cachePathActive cachePathRolling \<and>
       dirsAbove cachePathRolling fs"
  define fs1 where "fs1 = (if pathExists cachePathRolling fs then remove cachePathRolling fs else fs)"
  have a: "fs1 (cachePathActive @ q) = fs (cachePathActive @ q)" for q
    using h separate_append [of cachePathActive cachePathRolling q "[]"]
    by (simp add: fs1_def remove_def separate_def)
  have o: "\<not> isUnder cachePathRolling q \<Longrightarrow> fs1 q = fs q" for q
    by (simp add: fs1_def remove_def)
  have "fs1 cachePathRolling = None"
    by (simp add: fs1_def remove_def pathExists_def under_refl)
  moreover have "dirsAbove cachePathRolling fs1"
    using h by (simp add: fs1_def dirsAbove_remove)
  moreover have "fs1 cachePathActive \<noteq> None"
    using a [of "[]"] h by (simp add: pathExists_def)
  ultimately have m: "move cachePathActive cachePathRolling fs1 =
           Inr (\<lambda>q. if isUnder cachePathRolling q then fs1 (cachePathActive @ drop (length cachePathRolling) q)
                    else if isUnder cachePathActive q then None
                    else if q \<in> set (ancestors cachePathRolling) \<and> fs1 q = None then Some Dir
                    else fs1 q)"
    using h by (intro move_ok) (auto simp: separate_def)
  have r: "onPreInit (Some ''production'') cachePathActive cachePathRolling fs =
      (Inr (), (\<lambda>q. if isUnder cachePathRolling q then fs1 (cachePathActive @ drop (length cachePathRolling) q)
                    else if isUnder cachePathActive q then None
                    else if q \<in> set (ancestors cachePathRolling) \<and> fs1 q = None then Some Dir
                    else fs1 q))"
    using h m by (simp add: onPreInit_def fs1_def)
  have nu: "\<not> isUnder cachePathRolling (cachePathActive @ q)" for q
    using separate_append [of cachePathActive cachePathRolling q "[]"] h by (simp add: separate_def)
  show "fst (onPreInit (Some ''production'') cachePathActive cachePathRolling fs) = Inr ()"
    by (simp add: r)
  show "\<not> pathExists cachePathActive
          (snd (onPreInit (Some ''production'') cachePathActive cachePathRolling fs))"
    using nu [of "[]"] by (simp add: r pathExists_def under_refl)
  show "\<forall>q. snd (onPreInit (Some ''production'') cachePathActive cachePathRolling fs)
              (cachePathRolling @ q) = fs (cachePathActive @ q)"
    by (simp add: r under_append a)
  show "\<forall>q. snd (onPreInit (Some ''production'') cachePathActive cachePathRolling fs)
              (cachePathActive @ q) = None"
    using nu by (simp add: r under_append)
  show "\<forall>q. \<not> isUnder cachePathActive q \<and> \<not> isUnder cachePathRolling q \<and>
            q \<notin> set (ancestors cachePathRolling) \<longrightarrow>
            snd (onPreInit (Some ''production'') cachePathActive cachePathRolling fs) q = fs q"
    by (simp add: r o)
qed

theorem onPreInit_rotates_witness:
  "onPreInit (Some ''development'') [''cache''] [''cache-rolling'']
       (exampleTiers [''cache'', ''cache-rolling''])
     = (Inr (), exampleTiers [''cache'', ''cache-rolling''])
   \<and> onPreInit (Some ''production'') [''cache''] [''cache-rolling''] (exampleTiers [''cache-rolling''])
     = (Inr (), exampleTiers [''cache-rolling''])
   \<and> fst (onPreInit (Some ''production'') [''cache''] [''cache-rolling'']
          (exampleTiers [''cache'', ''cache-rolling''])) = Inr ()
   \<and> snd (onPreInit (Some ''production'') [''cache''] [''cache-rolling'']
          (exampleTiers [''cache'', ''cache-rolling''])) [''cache''] = None
   \<and> snd (onPreInit (Some ''production'') [''cache''] [''cache-rolling'']
          (exampleTiers [''cache'', ''cache-rolling''])) [''cache-rolling'', ''videos'', ''clip-h264.mp4'']
        = Some (File ''made in cache'')"
proof -
  let ?a = "[''cache'']"
  let ?r = "[''cache-rolling'']"
  let ?both = "exampleTiers [''cache'', ''cache-rolling'']"
  have h1: "Some ''development'' \<noteq> Some ''production''"
    by simp
  have h2: "\<not> pathExists ?a (exampleTiers [''cache-rolling''])"
    by (simp add: pathExists_def exampleTiers_def)
  have h3: "pathExists ?a ?both \<and> separate ?a ?r \<and> dirsAbove ?r ?both"
    by (simp add: pathExists_def exampleTiers_def separate_def isUnder_def dirsAbove_exampleTiers_top)
  from onPreInit_rotates [of "Some ''development''" ?a ?r ?both] h1
  have c1: "onPreInit (Some ''development'') ?a ?r ?both = (Inr (), ?both)"
    by blast
  from onPreInit_rotates [of "Some ''production''" ?a ?r "exampleTiers [''cache-rolling'']"] h2
  have c2: "onPreInit (Some ''production'') ?a ?r (exampleTiers [''cache-rolling''])
      = (Inr (), exampleTiers [''cache-rolling''])"
    by blast
  from onPreInit_rotates [of "Some ''production''" ?a ?r ?both] h3
  have c3: "fst (onPreInit (Some ''production'') ?a ?r ?both) = Inr () \<and>
      \<not> pathExists ?a (snd (onPreInit (Some ''production'') ?a ?r ?both)) \<and>
      (\<forall>q. snd (onPreInit (Some ''production'') ?a ?r ?both) (?r @ q) = ?both (?a @ q))"
    by blast
  then have "snd (onPreInit (Some ''production'') ?a ?r ?both) (?r @ [''videos'', ''clip-h264.mp4''])
      = ?both (?a @ [''videos'', ''clip-h264.mp4''])"
    by blast
  then have c4: "snd (onPreInit (Some ''production'') ?a ?r ?both)
      [''cache-rolling'', ''videos'', ''clip-h264.mp4''] = Some (File ''made in cache'')"
    by (simp add: exampleTiers_def)
  from c1 c2 c3 c4 show ?thesis
    by (simp add: pathExists_def)
qed

section \<open>Evaluating the rendering functions\<close>

lemma showNat_small: "n < 10 \<Longrightarrow> showNat n = [''0123456789'' ! n]"
  by (simp add: showNat.simps)

lemma showNat_big: "\<not> n < 10 \<Longrightarrow> showNat n = showNat (n div 10) @ [''0123456789'' ! (n mod 10)]"
  by (subst showNat.simps) simp

lemma set_filterBoolean: "set (filterBoolean xs) = {s. Some s \<in> set xs}"
  by (induction xs) (auto simp: filterBoolean_def List.map_filter_simps split: option.splits)

lemma parseIntSigned_ten: "parseIntSigned ''10'' = Some (False, 10)"
  by (simp add: parseIntSigned_def isWhiteSpace_def digitValue_def Let_def)

lemma parseIntSigned_ten_text: "parseIntSigned ''10.000000'' = Some (False, 10)"
  by (simp add: parseIntSigned_def isWhiteSpace_def digitValue_def Let_def)

lemma parseIntSigned_unknown: "parseIntSigned ''N/A'' = None"
  by (simp add: parseIntSigned_def isWhiteSpace_def digitValue_def Let_def)

lemma bitLength_zero: "bitLength 0 = 0"
  by (simp add: bitLength.simps)

lemma bitLength_pos: "0 < n \<Longrightarrow> bitLength n = Suc (bitLength (n div 2))"
  by (subst bitLength.simps) simp

text \<open>Rounding a quotient of two integers, by integer arithmetic alone.\<close>

lemma roundHalfEven_divide:
  assumes "0 < q"
  shows "roundHalfEven (of_int p / of_int q) =
     (if 2 * (p mod q) < q then p div q
      else if q < 2 * (p mod q) then p div q + 1
      else if even (p div q) then p div q else p div q + 1)"
proof -
  have f: "\<lfloor>of_int p / of_int q :: rat\<rfloor> = p div q"
    by (rule floor_divide_of_int_eq)
  have "of_int p = (of_int (p div q) * of_int q + of_int (p mod q) :: rat)"
    by (metis of_int_add of_int_mult div_mult_mod_eq)
  with assms have r: "(of_int p / of_int q :: rat) - of_int (p div q) = of_int (p mod q) / of_int q"
    by (simp add: field_simps)
  have lt: "(of_int (p mod q) / of_int q :: rat) < 1 / 2 \<longleftrightarrow> 2 * (p mod q) < q"
  proof -
    have "(of_int (p mod q) / of_int q :: rat) < 1 / 2
        \<longleftrightarrow> (of_int (2 * (p mod q)) :: rat) < of_int q"
      using assms by (simp add: field_simps)
    then show ?thesis by (simp only: of_int_less_iff)
  qed
  have gt: "1 / 2 < (of_int (p mod q) / of_int q :: rat) \<longleftrightarrow> q < 2 * (p mod q)"
  proof -
    have "1 / 2 < (of_int (p mod q) / of_int q :: rat)
        \<longleftrightarrow> (of_int q :: rat) < of_int (2 * (p mod q))"
      using assms by (simp add: field_simps)
    then show ?thesis by (simp only: of_int_less_iff)
  qed
  show ?thesis
    unfolding roundHalfEven_def Let_def f r lt gt by (rule refl)
qed

subsection \<open>The nearest double\<close>

lemma bitLength_bounds:
  "0 < n \<Longrightarrow> 2 ^ (bitLength n - 1) \<le> n \<and> n < 2 ^ bitLength n"
proof (induction n rule: bitLength.induct)
  case (1 n)
  show ?case
  proof (cases "n div 2 = 0")
    case True
    with "1.prems" have "n = 1" by (simp add: div_eq_0_iff)
    then show ?thesis by (simp add: bitLength_pos bitLength_zero)
  next
    case False
    then have p: "0 < n div 2" by simp
    from "1.IH" "1.prems" p
    have ih: "2 ^ (bitLength (n div 2) - 1) \<le> n div 2" "n div 2 < 2 ^ bitLength (n div 2)"
      by simp_all
    have k: "0 < bitLength (n div 2)"
      using p by (simp add: bitLength_pos)
    have b: "bitLength n = Suc (bitLength (n div 2))"
      using "1.prems" by (rule bitLength_pos)
    from k have "(2::nat) ^ bitLength (n div 2) = 2 * 2 ^ (bitLength (n div 2) - 1)"
      by (cases "bitLength (n div 2)") simp_all
    with ih(1) have lo: "2 ^ bitLength (n div 2) \<le> n" by linarith
    from ih(2) have hi: "n < 2 * 2 ^ bitLength (n div 2)" by linarith
    from lo hi show ?thesis unfolding b by simp
  qed
qed

lemma roundHalfEven_nearest: "\<bar>of_int (roundHalfEven x) - x\<bar> \<le> 1 / 2"
proof -
  have "of_int \<lfloor>x\<rfloor> \<le> x" "x < of_int \<lfloor>x\<rfloor> + 1"
    by linarith+
  then show ?thesis
    unfolding roundHalfEven_def Let_def by (auto simp: abs_le_iff)
qed

lemma binaryExponent_bounds:
  assumes "0 < a"
  shows "twoTo (binaryExponent a) \<le> a \<and> a < twoTo (binaryExponent a + 1)"
proof (cases "1 \<le> a")
  case True
  define n where "n = nat \<lfloor>a\<rfloor>"
  from True have n: "0 < n" "of_nat n \<le> a" "a < of_nat n + 1"
    unfolding n_def by (simp_all add: le_floor_iff) linarith+
  from bitLength_bounds [OF n(1)] have b: "2 ^ (bitLength n - 1) \<le> n" "n < 2 ^ bitLength n"
    by simp_all
  have k: "0 < bitLength n" using n(1) by (simp add: bitLength_pos)
  have e: "binaryExponent a = int (bitLength n) - 1"
    using True by (simp add: binaryExponent_def n_def)
  have lo: "twoTo (int (bitLength n) - 1) = 2 ^ (bitLength n - 1)"
    using k by (simp add: twoTo_def nat_diff_distrib')
  have hi: "twoTo (int (bitLength n) - 1 + 1) = 2 ^ bitLength n"
    by (simp add: twoTo_def)
  from b(1) have "(of_nat (2 ^ (bitLength n - 1)) :: rat) \<le> of_nat n"
    by (rule of_nat_mono)
  then have "(2 ^ (bitLength n - 1) :: rat) \<le> of_nat n" by simp
  with n(2) have 1: "(2 ^ (bitLength n - 1) :: rat) \<le> a" by linarith
  from b(2) have "n + 1 \<le> 2 ^ bitLength n" by simp
  then have "(of_nat (n + 1) :: rat) \<le> of_nat (2 ^ bitLength n)"
    by (rule of_nat_mono)
  then have "(of_nat n + 1 :: rat) \<le> 2 ^ bitLength n" by simp
  with n(3) have 2: "a < (2 ^ bitLength n :: rat)" by linarith
  from 1 2 show ?thesis unfolding e lo hi by simp
next
  case False
  define n where "n = nat (\<lceil>1 / a\<rceil> - 1)"
  from False assms have g: "1 < 1 / a" by (simp add: field_simps)
  then have c: "2 \<le> \<lceil>1 / a\<rceil>" by linarith
  have n: "0 < n" "of_nat n < 1 / a" "1 / a \<le> of_nat n + 1"
    using c unfolding n_def by (simp_all) linarith+
  from bitLength_bounds [OF n(1)] have b: "2 ^ (bitLength n - 1) \<le> n" "n < 2 ^ bitLength n"
    by simp_all
  have k: "0 < bitLength n" using n(1) by (simp add: bitLength_pos)
  have e: "binaryExponent a = - int (bitLength n)"
    using False by (simp add: binaryExponent_def n_def)
  have lo: "twoTo (- int (bitLength n)) = 1 / 2 ^ bitLength n"
    using k by (simp add: twoTo_def)
  have hi: "twoTo (- int (bitLength n) + 1) = 1 / 2 ^ (bitLength n - 1)"
    using k by (cases "bitLength n") (simp_all add: twoTo_def nat_diff_distrib')
  from b(2) have "n + 1 \<le> 2 ^ bitLength n" by simp
  then have "(of_nat (n + 1) :: rat) \<le> of_nat (2 ^ bitLength n)"
    by (rule of_nat_mono)
  then have "(of_nat n + 1 :: rat) \<le> 2 ^ bitLength n" by simp
  with n(3) have "1 / a \<le> (2 ^ bitLength n :: rat)" by linarith
  with assms have 1: "1 / 2 ^ bitLength n \<le> a"
    by (simp add: field_simps)
  from b(1) have "(of_nat (2 ^ (bitLength n - 1)) :: rat) \<le> of_nat n"
    by (rule of_nat_mono)
  then have "(2 ^ (bitLength n - 1) :: rat) \<le> of_nat n" by simp
  with n(2) have "(2 ^ (bitLength n - 1) :: rat) < 1 / a" by linarith
  with assms have 2: "a < 1 / 2 ^ (bitLength n - 1)"
    by (simp add: field_simps)
  from 1 2 show ?thesis unfolding e lo hi by simp
qed

lemma twoTo_power_int: "twoTo k = power_int 2 k"
proof (cases "0 \<le> k")
  case True
  then show ?thesis by (simp add: twoTo_def power_int_def)
next
  case False
  have "(1::rat) / 2 ^ nat (- k) = inverse 2 ^ nat (- k)"
    by (simp add: power_one_over inverse_eq_divide)
  with False show ?thesis by (simp add: twoTo_def power_int_def)
qed

lemma twoTo_pos: "0 < twoTo k"
  by (simp add: twoTo_def)

lemma twoTo_add: "twoTo (j + k) = twoTo j * twoTo k"
  by (simp add: twoTo_power_int power_int_add)

lemma twoTo_mono: "j \<le> k \<Longrightarrow> twoTo j \<le> twoTo k"
proof -
  assume "j \<le> k"
  then obtain n where k: "k = j + int n"
    by (metis nonneg_int_cases diff_ge_0_iff_ge add_diff_cancel_left' add.commute diff_add_cancel)
  have "(1::rat) \<le> twoTo (int n)" by (simp add: twoTo_def)
  then show ?thesis
    unfolding k twoTo_add using twoTo_pos [of j] by (simp add: mult_le_cancel_left1)
qed

lemma roundHalfEven_floor: "\<lfloor>x\<rfloor> \<le> roundHalfEven x \<and> roundHalfEven x \<le> \<lceil>x\<rceil>"
proof (cases "x = of_int \<lfloor>x\<rfloor>")
  case True
  then have "x - of_int \<lfloor>x\<rfloor> = 0" by simp
  then have "roundHalfEven x = \<lfloor>x\<rfloor>"
    unfolding roundHalfEven_def Let_def by simp
  then show ?thesis by (simp add: floor_le_ceiling)
next
  case False
  then have "\<lceil>x\<rceil> = \<lfloor>x\<rfloor> + 1"
    by (simp add: ceiling_altdef)
  then show ?thesis
    unfolding roundHalfEven_def Let_def by simp
qed

text \<open>
  What \<open>toDouble\<close> returns for a non-zero \<open>r\<close>, when it is finite: a significand \<open>m\<close> of at most
  53 bits, within one half of the exact scaled value, at the exponent of \<open>r\<close> (or the least
  exponent); from the least normal exponent on the significand has its full 53 bits.
\<close>

lemma toDouble_nearest:
  assumes "r \<noteq> 0" and "toDouble r = Num v" and "e = max (binaryExponent \<bar>r\<bar>) (- 1022)"
  shows "\<exists>m. \<bar>v\<bar> = of_int m * twoTo (e - 52)
           \<and> \<bar>of_int m - \<bar>r\<bar> / twoTo (e - 52)\<bar> \<le> 1 / 2
           \<and> 0 \<le> m \<and> m \<le> 2 ^ 53
           \<and> (- 1022 \<le> binaryExponent \<bar>r\<bar> \<longrightarrow> 2 ^ 52 \<le> m)
           \<and> (v < 0 \<longrightarrow> r < 0) \<and> (0 < v \<longrightarrow> 0 < r)"
proof -
  define x where "x = \<bar>r\<bar> / twoTo (e - 52)"
  define m where "m = roundHalfEven x"
  from assms(1) have a: "0 < \<bar>r\<bar>" by simp
  have x0: "0 \<le> x" unfolding x_def using twoTo_pos [of "e - 52"] by simp
  from binaryExponent_bounds [OF a]
  have lo: "twoTo (binaryExponent \<bar>r\<bar>) \<le> \<bar>r\<bar>" and hi: "\<bar>r\<bar> < twoTo (binaryExponent \<bar>r\<bar> + 1)"
    by simp_all
  have "binaryExponent \<bar>r\<bar> + 1 \<le> e + 1" unfolding assms(3) by simp
  then have "twoTo (binaryExponent \<bar>r\<bar> + 1) \<le> twoTo (e + 1)" by (rule twoTo_mono)
  with hi have "\<bar>r\<bar> < twoTo (e + 1)" by simp
  also have "twoTo (e + 1) = twoTo 53 * twoTo (e - 52)"
    using twoTo_add [of 53 "e - 52"] by (simp add: add.commute)
  finally have "x < twoTo 53"
    unfolding x_def using twoTo_pos [of "e - 52"] by (simp add: field_simps)
  then have xhi: "x < 2 ^ 53" by (simp add: twoTo_def)
  then have "\<lceil>x\<rceil> \<le> 2 ^ 53" by (simp add: ceiling_le_iff)
  with roundHalfEven_floor [of x] have m_hi: "m \<le> 2 ^ 53" unfolding m_def by linarith
  from x0 have "0 \<le> \<lfloor>x\<rfloor>" by simp
  with roundHalfEven_floor [of x] have m_lo: "0 \<le> m" unfolding m_def by linarith
  have m_norm: "2 ^ 52 \<le> m" if n: "- 1022 \<le> binaryExponent \<bar>r\<bar>"
  proof -
    from n have ee: "e = binaryExponent \<bar>r\<bar>" unfolding assms(3) by simp
    have "twoTo e = twoTo 52 * twoTo (e - 52)"
      using twoTo_add [of 52 "e - 52"] by simp
    with lo have "twoTo 52 \<le> x"
      unfolding x_def ee [symmetric] using twoTo_pos [of "e - 52"] by (simp add: field_simps)
    then have "2 ^ 52 \<le> x" by (simp add: twoTo_def)
    then have "2 ^ 52 \<le> \<lfloor>x\<rfloor>" by (simp add: le_floor_iff)
    with roundHalfEven_floor [of x] show ?thesis unfolding m_def by linarith
  qed
  have near: "\<bar>of_int m - x\<bar> \<le> 1 / 2"
    unfolding m_def by (rule roundHalfEven_nearest)
  have v: "v = (if r < 0 then - (of_int m * twoTo (e - 52)) else of_int m * twoTo (e - 52))"
    using assms(1,2) unfolding toDouble_def Let_def m_def x_def assms(3)
    by (simp split: if_splits)
  have p: "0 \<le> of_int m * twoTo (e - 52)"
    using m_lo twoTo_pos [of "e - 52"] by simp
  from v p have av: "\<bar>v\<bar> = of_int m * twoTo (e - 52)"
    by (simp split: if_splits)
  from v p assms(1) have sg: "(v < 0 \<longrightarrow> r < 0) \<and> (0 < v \<longrightarrow> 0 < r)"
    by (auto split: if_splits)
  from av near m_lo m_hi m_norm sg show ?thesis
    unfolding x_def by blast
qed

subsection \<open>The quotients of the examples\<close>

text \<open>The integer 10 is a double; the double nearest to one fifth lies a little above it.\<close>

lemma toDouble_ten: "toDouble (of_nat 10) = Num 10"
proof -
  have r: "roundHalfEven (of_int 5629499534213120 / of_int 1) = 5629499534213120"
    by (subst roundHalfEven_divide) simp_all
  have e: "binaryExponent 10 = 3"
    by (simp add: binaryExponent_def bitLength_zero bitLength_pos)
  show ?thesis
    using r by (simp add: toDouble_def e twoTo_def Let_def)
qed

lemma toDouble_one_fifth:
  "toDouble (of_int 2 / 10) = Num (of_int 3602879701896397 / of_int 18014398509481984)"
proof -
  have r: "roundHalfEven (of_int 36028797018963968 / of_int 5) = 7205759403792794"
    by (subst roundHalfEven_divide) simp_all
  have e: "binaryExponent (1 / 5) = - 3"
    by (simp add: binaryExponent_def bitLength_zero bitLength_pos)
  show ?thesis
    using r by (simp add: toDouble_def e twoTo_def Let_def)
qed

lemma round_one_fifth:
  "nat \<lfloor>\<bar>of_int 3602879701896397 / of_int 18014398509481984 :: rat\<bar> * 1000000 + 1 / 2\<rfloor>
     = 200000"
proof -
  have "\<bar>of_int 3602879701896397 / of_int 18014398509481984 :: rat\<bar> * 1000000 + 1 / 2
      = of_int 7205777418191303481984 / of_int 36028797018963968"
    by simp
  then have "\<lfloor>\<bar>of_int 3602879701896397 / of_int 18014398509481984 :: rat\<bar> * 1000000 + 1 / 2\<rfloor>
      = 7205777418191303481984 div 36028797018963968"
    by (simp only: floor_divide_of_int_eq)
  then show ?thesis by simp
qed

lemma toFixed6_one_fifth:
  "toFixed6 numberToString (divideBy 2 (parseIntSigned ''10'')) = ''0.200000''"
proof -
  have d: "divideBy 2 (parseIntSigned ''10'')
      = Num (of_int 3602879701896397 / of_int 18014398509481984)"
    using toDouble_ten toDouble_one_fifth by (simp add: parseIntSigned_ten divideBy_def)
  have s: "showNat 200000 = ''200000''"
    by (simp add: showNat_small showNat_big)
  have small: "\<not> \<bar>of_int 3602879701896397 / of_int 18014398509481984 :: rat\<bar> \<ge> 10 ^ 21"
    by simp
  show ?thesis
    unfolding d toFixed6_def jsnumber.case Let_def round_one_fifth s
    using small by simp
qed

text \<open>
  The quotient \<open>3 / 640\<close> lies exactly half-way between \<open>0.004687\<close> and \<open>0.004688\<close>; the double
  nearest to it lies below, and \<^verbatim>\<open>toFixed(6)\<close> rounds that double down.
\<close>

lemma toFixed6_half_way:
  "toFixed6 numberToString (divideBy 3 (Some (False, 640))) = ''0.004687''"
proof -
  have r0: "roundHalfEven (of_int 5629499534213120 / of_int 1) = 5629499534213120"
    by (subst roundHalfEven_divide) simp_all
  have e0: "binaryExponent 640 = 9"
    by (simp add: binaryExponent_def bitLength_zero bitLength_pos)
  have n: "toDouble (of_nat 640) = Num 640"
    using r0 by (simp add: toDouble_def e0 twoTo_def Let_def)
  have r: "roundHalfEven (of_int 27021597764222976 / of_int 5) = 5404319552844595"
    by (subst roundHalfEven_divide) simp_all
  have "\<lceil>of_int 640 / of_int 3 :: rat\<rceil> = - (- 640 div 3)"
    by (simp only: ceiling_divide_eq_div)
  then have c: "\<lceil>640 / 3 :: rat\<rceil> = 214"
    by simp
  have e: "binaryExponent (3 / 640) = - 8"
    by (simp add: binaryExponent_def c bitLength_zero bitLength_pos)
  have q: "toDouble (of_int 3 / 640) = Num (of_int 5404319552844595 / of_int 1152921504606846976)"
    using r by (simp add: toDouble_def e twoTo_def Let_def)
  have d: "divideBy 3 (Some (False, 640))
      = Num (of_int 5404319552844595 / of_int 1152921504606846976)"
    using n q by (simp add: divideBy_def)
  have "\<bar>of_int 5404319552844595 / of_int 1152921504606846976 :: rat\<bar> * 1000000 + 1 / 2
      = of_int 84451500212451537867 / of_int 18014398509481984"
    by simp
  then have "\<lfloor>\<bar>of_int 5404319552844595 / of_int 1152921504606846976 :: rat\<bar> * 1000000 + 1 / 2\<rfloor>
      = 84451500212451537867 div 18014398509481984"
    by (simp only: floor_divide_of_int_eq)
  then have f: "nat \<lfloor>\<bar>of_int 5404319552844595 / of_int 1152921504606846976 :: rat\<bar> * 1000000 + 1 / 2\<rfloor>
      = 4687"
    by simp
  have s: "showNat 4687 = ''4687''"
    by (simp add: showNat_small showNat_big)
  have small: "\<not> \<bar>of_int 5404319552844595 / of_int 1152921504606846976 :: rat\<bar> \<ge> 10 ^ 21"
    by simp
  show ?thesis
    unfolding d toFixed6_def jsnumber.case Let_def f s
    using small by (simp add: numeral_2_eq_2)
qed

section \<open>The order of the filter stages\<close>

lemma toStringNumber_ten: "toStringNumber numberToString (Num 10) = ''10''"
  by (simp add: toStringNumber_def showInt_def showNat_small showNat_big)

lemma toStringNumber_two: "toStringNumber numberToString (Num 2) = ''2''"
  by (simp add: toStringNumber_def showInt_def showNat_small showNat_big)

lemma example_filters:
  "createFilters numberToString exampleFilterArgs [exampleVideoStream 1280 720] =
     Inr [''setpts=0.200000*PTS'', ''fps=4'',
          ''scale='' @ [CHR 0x27] @ ''min(600,iw)'' @ [CHR 0x27] @ '':-2:flags=lanczos'']"
  by (simp add: createFilters_def exampleFilterArgs_def exampleVideoStream_def truthyProbed_def
      probedToString_def toStringNumber_ten toFixed6_one_fifth
      truthyNum_def truthyStr_def templateInt_def showInt_def showNat_small showNat_big
      generateScaleFilter_def)

lemma example_filters_text_duration:
  "createFilters numberToString exampleFilterArgs
     [(exampleVideoStream 1280 720)\<lparr>stream_duration := Val (ProbedString ''10.000000'')\<rparr>] =
     Inr [''setpts=0.200000*PTS'', ''fps=4'',
          ''scale='' @ [CHR 0x27] @ ''min(600,iw)'' @ [CHR 0x27] @ '':-2:flags=lanczos'']"
proof -
  have "toFixed6 numberToString (divideBy 2 (parseIntSigned ''10.000000'')) = ''0.200000''"
    using toFixed6_one_fifth [of numberToString]
    by (simp only: parseIntSigned_ten parseIntSigned_ten_text)
  then show ?thesis
    by (simp add: createFilters_def exampleFilterArgs_def exampleVideoStream_def truthyProbed_def
        probedToString_def truthyNum_def truthyStr_def templateInt_def showInt_def showNat_small
        showNat_big generateScaleFilter_def)
qed

lemma example_filters_no_duration:
  "createFilters numberToString exampleFilterArgs [exampleStreamNoDuration] =
     Inr [''fps=4'', ''scale='' @ [CHR 0x27] @ ''min(600,iw)'' @ [CHR 0x27] @ '':-2:flags=lanczos'']"
  by (simp add: createFilters_def exampleFilterArgs_def exampleStreamNoDuration_def
      truthyNum_def truthyStr_def templateInt_def showInt_def showNat_small showNat_big
      generateScaleFilter_def)

lemma example_filters_unknown_duration:
  "createFilters numberToString exampleFilterArgs [exampleStreamUnknownDuration] =
     Inr [''setpts=NaN*PTS'', ''fps=4'',
          ''scale='' @ [CHR 0x27] @ ''min(600,iw)'' @ [CHR 0x27] @ '':-2:flags=lanczos'']"
  by (simp add: createFilters_def exampleFilterArgs_def exampleStreamUnknownDuration_def
      truthyProbed_def probedToString_def parseIntSigned_unknown divideBy_def toFixed6_def
      truthyNum_def truthyStr_def templateInt_def showInt_def showNat_small showNat_big
      generateScaleFilter_def)

lemma example_all_stages:
  "createFilters numberToString exampleAllStagesArgs [exampleVideoStream 1280 720] =
     Inr [''setpts=0.200000*PTS'', ''fps=4'',
          ''scale='' @ [CHR 0x27] @ ''min(600,iw)'' @ [CHR 0x27] @ '':-2:flags=lanczos'',
          ''eq=saturation=2'', ''overlay=x=(main_w-overlay_w)/2:y=(main_h-overlay_h)/2'']"
  by (simp add: createFilters_def exampleAllStagesArgs_def exampleVideoStream_def truthyProbed_def
      probedToString_def toStringNumber_ten toFixed6_one_fifth templateFloat_def
      toStringNumber_two overlayCoordinate_def
      truthyNum_def truthyStr_def templateInt_def showInt_def showNat_small showNat_big
      generateScaleFilter_def)

lemma example_all_stages_unknown_duration:
  "createFilters numberToString exampleAllStagesArgs [exampleStreamUnknownDuration] =
     Inr [''setpts=NaN*PTS'', ''fps=4'',
          ''scale='' @ [CHR 0x27] @ ''min(600,iw)'' @ [CHR 0x27] @ '':-2:flags=lanczos'',
          ''eq=saturation=2'', ''overlay=x=(main_w-overlay_w)/2:y=(main_h-overlay_h)/2'']"
  by (simp add: createFilters_def exampleAllStagesArgs_def exampleStreamUnknownDuration_def
      truthyProbed_def probedToString_def parseIntSigned_unknown divideBy_def toFixed6_def
      templateFloat_def toStringNumber_two overlayCoordinate_def
      truthyNum_def truthyStr_def templateInt_def showInt_def showNat_small showNat_big
      generateScaleFilter_def)

text \<open>What a successful call returns: the five optional stages, appended in this order.\<close>

lemma createFilters_shape:
  assumes "createFilters numberToString fieldArgs streams = Inr filters"
  shows "\<exists>first rest ov. streams = first # rest \<and>
     filters = durationStage numberToString fieldArgs first @
        (if truthyNum (fps fieldArgs) then [''fps='' @ templateInt (fps fieldArgs)] else []) @
        (if truthyNum (maxWidth fieldArgs) \<or> truthyNum (maxHeight fieldArgs)
         then [''scale='' @ generateScaleFilter (maxWidth fieldArgs) (maxHeight fieldArgs)]
         else []) @
        (if saturation fieldArgs \<noteq> Val 1
         then [''eq=saturation='' @ templateFloat numberToString (saturation fieldArgs)]
         else []) @ ov
     \<and> (if truthyStr (overlay fieldArgs) then \<exists>x. ov = [''overlay=x='' @ x] else ov = [])"
proof -
  from assms obtain first rest where st: "streams = first # rest"
    by (cases streams) (auto simp: createFilters_def)
  show ?thesis
    using assms unfolding st createFilters_def
    by (auto simp: Let_def durationStage_def split: if_splits sum.splits)
qed

lemma durationStage_cases:
  "if truthyNum (duration fieldArgs) \<and> (\<exists>sd. stream_duration first = Val sd \<and> truthyProbed sd)
   then \<exists>x. durationStage numberToString fieldArgs first = [''setpts='' @ x]
   else durationStage numberToString fieldArgs first = []"
  by (auto simp: durationStage_def truthyNum_def split: js.splits)

text \<open>The kinds of the stages of a returned list, in the order of the list.\<close>

lemma createFilters_ranks:
  assumes "createFilters numberToString fieldArgs (first # rest) = Inr filters"
  shows "map stageRank filters =
     (if truthyNum (duration fieldArgs) \<and> (\<exists>sd. stream_duration first = Val sd \<and> truthyProbed sd)
      then [0] else []) @
     (if truthyNum (fps fieldArgs) then [1] else []) @
     (if truthyNum (maxWidth fieldArgs) \<or> truthyNum (maxHeight fieldArgs) then [2] else []) @
     (if saturation fieldArgs \<noteq> Val 1 then [3] else []) @
     (if truthyStr (overlay fieldArgs) then [4] else [])"
proof -
  from createFilters_shape [OF assms] obtain ov where
    f: "filters = durationStage numberToString fieldArgs first @
        (if truthyNum (fps fieldArgs) then [''fps='' @ templateInt (fps fieldArgs)] else []) @
        (if truthyNum (maxWidth fieldArgs) \<or> truthyNum (maxHeight fieldArgs)
         then [''scale='' @ generateScaleFilter (maxWidth fieldArgs) (maxHeight fieldArgs)]
         else []) @
        (if saturation fieldArgs \<noteq> Val 1
         then [''eq=saturation='' @ templateFloat numberToString (saturation fieldArgs)]
         else []) @ ov"
    and ov: "if truthyStr (overlay fieldArgs) then \<exists>x. ov = [''overlay=x='' @ x] else ov = []"
    by auto
  have d: "map stageRank (durationStage numberToString fieldArgs first) =
     (if truthyNum (duration fieldArgs) \<and> (\<exists>sd. stream_duration first = Val sd \<and> truthyProbed sd)
      then [0] else [])"
    using durationStage_cases [of fieldArgs first numberToString]
    by (auto simp: stageRank_def startsWith_def split: if_splits)
  have o: "map stageRank ov = (if truthyStr (overlay fieldArgs) then [4] else [])"
    using ov by (auto simp: stageRank_def startsWith_def split: if_splits)
  have m: "map stageRank filters =
     map stageRank (durationStage numberToString fieldArgs first) @
     (if truthyNum (fps fieldArgs) then [1] else []) @
     (if truthyNum (maxWidth fieldArgs) \<or> truthyNum (maxHeight fieldArgs) then [2] else []) @
     (if saturation fieldArgs \<noteq> Val 1 then [3] else []) @
     map stageRank ov"
    unfolding f by (simp add: stageRank_def startsWith_def)
  show ?thesis
    unfolding m d o by (rule refl)
qed

text \<open>
  Claim C5. The code breaks the last clause of the claim. For the option set duration 2, fps 4,
  maxWidth 600, saturation 1 on a source whose first stream has the duration \<^verbatim>\<open>N/A\<close>, which is
  what the prober reports when the duration is unknown, \<open>createFilters\<close> returns the stage
  \<^verbatim>\<open>setpts=NaN*PTS\<close> first and then the frame-rate and scale stages; the guard
  \<^verbatim>\<open>duration && sourceDuration\<close> lets every non-empty string pass and \<^verbatim>\<open>parseInt\<close> of such a text
  is \<^verbatim>\<open>NaN\<close>. The same happens with all five stages in play. The rest of the claim holds: on the
  source of 10 seconds, its duration given as the number or as the text \<^verbatim>\<open>10.000000\<close>, the list
  is exactly \<^verbatim>\<open>setpts=0.200000*PTS\<close>, \<^verbatim>\<open>fps=4\<close> and the scale stage, with no
  saturation stage; on a stream with no duration field the time-remap stage is left
  out; without an overlay every call on a source with a stream returns a list; and in every
  returned list the stages come in the order time-remap, frame-rate, scale, saturation,
  overlay, each kind at most once and each present exactly when its condition on the field
  arguments holds, with the text the source builds for it.
\<close>

theorem createFilters_unknown_duration_stage:
  "createFilters numberToString exampleFilterArgs [exampleStreamUnknownDuration] =
     Inr [''setpts=NaN*PTS'', ''fps=4'',
          ''scale='' @ [CHR 0x27] @ ''min(600,iw)'' @ [CHR 0x27] @ '':-2:flags=lanczos'']
   \<and> createFilters numberToString exampleAllStagesArgs [exampleStreamUnknownDuration] =
     Inr [''setpts=NaN*PTS'', ''fps=4'',
          ''scale='' @ [CHR 0x27] @ ''min(600,iw)'' @ [CHR 0x27] @ '':-2:flags=lanczos'',
          ''eq=saturation=2'', ''overlay=x=(main_w-overlay_w)/2:y=(main_h-overlay_h)/2'']
   \<and> createFilters numberToString exampleFilterArgs [exampleVideoStream 1280 720] =
     Inr [''setpts=0.200000*PTS'', ''fps=4'',
          ''scale='' @ [CHR 0x27] @ ''min(600,iw)'' @ [CHR 0x27] @ '':-2:flags=lanczos'']
   \<and> createFilters numberToString exampleFilterArgs
       [(exampleVideoStream 1280 720)\<lparr>stream_duration := Val (ProbedString ''10.000000'')\<rparr>] =
     Inr [''setpts=0.200000*PTS'', ''fps=4'',
          ''scale='' @ [CHR 0x27] @ ''min(600,iw)'' @ [CHR 0x27] @ '':-2:flags=lanczos'']
   \<and> createFilters numberToString exampleAllStagesArgs [exampleVideoStream 1280 720] =
     Inr [''setpts=0.200000*PTS'', ''fps=4'',
          ''scale='' @ [CHR 0x27] @ ''min(600,iw)'' @ [CHR 0x27] @ '':-2:flags=lanczos'',
          ''eq=saturation=2'', ''overlay=x=(main_w-overlay_w)/2:y=(main_h-overlay_h)/2'']
   \<and> createFilters numberToString exampleFilterArgs [exampleStreamNoDuration] =
     Inr [''fps=4'', ''scale='' @ [CHR 0x27] @ ''min(600,iw)'' @ [CHR 0x27] @ '':-2:flags=lanczos'']
   \<and> (\<not> truthyStr (overlay fieldArgs) \<longrightarrow>
        (\<exists>fl. createFilters numberToString fieldArgs (first # rest) = Inr fl))
   \<and> (createFilters numberToString fieldArgs (first # rest) = Inr filters \<longrightarrow>
        sorted_wrt (<) (map stageRank filters)
        \<and> (\<forall>x \<in> set filters. stageRank x < 5)
        \<and> (0 \<in> stageRank ` set filters \<longleftrightarrow>
              truthyNum (duration fieldArgs)
              \<and> (\<exists>sd. stream_duration first = Val sd \<and> truthyProbed sd))
        \<and> (1 \<in> stageRank ` set filters \<longleftrightarrow> truthyNum (fps fieldArgs))
        \<and> (2 \<in> stageRank ` set filters \<longleftrightarrow>
              truthyNum (maxWidth fieldArgs) \<or> truthyNum (maxHeight fieldArgs))
        \<and> (3 \<in> stageRank ` set filters \<longleftrightarrow> saturation fieldArgs \<noteq> Val 1)
        \<and> (4 \<in> stageRank ` set filters \<longleftrightarrow> truthyStr (overlay fieldArgs))
        \<and> (duration fieldArgs = Val d \<and> d \<noteq> 0 \<and> stream_duration first = Val sd
               \<and> truthyProbed sd \<longrightarrow>
              (''setpts='' @ toFixed6 numberToString
                   (divideBy d (parseIntSigned (probedToString numberToString sd))) @ ''*PTS'')
                \<in> set filters)
        \<and> (truthyNum (duration fieldArgs) \<and> stream_duration first = Val (ProbedString s)
               \<and> s \<noteq> [] \<and> parseIntSigned s = None \<longrightarrow>
              ''setpts=NaN*PTS'' \<in> set filters)
        \<and> (truthyNum (fps fieldArgs) \<longrightarrow>
              (''fps='' @ templateInt (fps fieldArgs)) \<in> set filters)
        \<and> (truthyNum (maxWidth fieldArgs) \<or> truthyNum (maxHeight fieldArgs) \<longrightarrow>
              (''scale='' @ generateScaleFilter (maxWidth fieldArgs) (maxHeight fieldArgs))
                \<in> set filters)
        \<and> (saturation fieldArgs \<noteq> Val 1 \<longrightarrow>
              (''eq=saturation='' @ templateFloat numberToString (saturation fieldArgs))
                \<in> set filters)
        \<and> (truthyStr (overlay fieldArgs)
               \<and> overlayCoordinate ''(main_w-overlay_w)/2'' ''main_w-overlay_w-''
                     (if overlayPadding fieldArgs = Undefined then Val 10
                      else overlayPadding fieldArgs) (overlayX fieldArgs) = Inr x
               \<and> overlayCoordinate ''(main_h-overlay_h)/2'' ''main_h-overlay_h-''
                     (if overlayPadding fieldArgs = Undefined then Val 10
                      else overlayPadding fieldArgs) (overlayY fieldArgs) = Inr y \<longrightarrow>
              (''overlay=x='' @ x @ '':y='' @ y) \<in> set filters))"
proof (intro conjI impI)
  show "\<exists>fl. createFilters numberToString fieldArgs (first # rest) = Inr fl"
    if "\<not> truthyStr (overlay fieldArgs)"
    using that unfolding createFilters_def list.case by (simp add: Let_def)
next
  assume c: "createFilters numberToString fieldArgs (first # rest) = Inr filters"
  note r = createFilters_ranks [OF c]
  from createFilters_shape [OF c] obtain ov where
    f: "filters = durationStage numberToString fieldArgs first @
        (if truthyNum (fps fieldArgs) then [''fps='' @ templateInt (fps fieldArgs)] else []) @
        (if truthyNum (maxWidth fieldArgs) \<or> truthyNum (maxHeight fieldArgs)
         then [''scale='' @ generateScaleFilter (maxWidth fieldArgs) (maxHeight fieldArgs)]
         else []) @
        (if saturation fieldArgs \<noteq> Val 1
         then [''eq=saturation='' @ templateFloat numberToString (saturation fieldArgs)]
         else []) @ ov"
    by auto
  show "sorted_wrt (<) (map stageRank filters)"
    unfolding r by simp
  have "\<forall>k \<in> set (map stageRank filters). k < 5"
    unfolding r by auto
  then show "\<forall>x \<in> set filters. stageRank x < 5"
    by simp
  have s: "stageRank ` set filters = set (map stageRank filters)"
    by simp
  show "0 \<in> stageRank ` set filters \<longleftrightarrow>
          truthyNum (duration fieldArgs)
          \<and> (\<exists>sd. stream_duration first = Val sd \<and> truthyProbed sd)"
    unfolding s r by simp
  show "1 \<in> stageRank ` set filters \<longleftrightarrow> truthyNum (fps fieldArgs)"
    unfolding s r by simp
  show "2 \<in> stageRank ` set filters \<longleftrightarrow>
          truthyNum (maxWidth fieldArgs) \<or> truthyNum (maxHeight fieldArgs)"
    unfolding s r by simp
  show "3 \<in> stageRank ` set filters \<longleftrightarrow> saturation fieldArgs \<noteq> Val 1"
    unfolding s r by simp
  show "4 \<in> stageRank ` set filters \<longleftrightarrow> truthyStr (overlay fieldArgs)"
    unfolding s r by simp
  show "(''setpts='' @ toFixed6 numberToString
           (divideBy d (parseIntSigned (probedToString numberToString sd))) @ ''*PTS'')
          \<in> set filters"
    if "duration fieldArgs = Val d \<and> d \<noteq> 0 \<and> stream_duration first = Val sd \<and> truthyProbed sd"
    using that unfolding f by (simp add: durationStage_def)
  show "''setpts=NaN*PTS'' \<in> set filters"
    if "truthyNum (duration fieldArgs) \<and> stream_duration first = Val (ProbedString s)
          \<and> s \<noteq> [] \<and> parseIntSigned s = None"
    using that unfolding f
    by (auto simp: durationStage_def truthyNum_def truthyProbed_def probedToString_def
        divideBy_def toFixed6_def split: js.splits)
  show "(''fps='' @ templateInt (fps fieldArgs)) \<in> set filters"
    if "truthyNum (fps fieldArgs)"
    using that unfolding f by simp
  show "(''scale='' @ generateScaleFilter (maxWidth fieldArgs) (maxHeight fieldArgs))
          \<in> set filters"
    if "truthyNum (maxWidth fieldArgs) \<or> truthyNum (maxHeight fieldArgs)"
    using that unfolding f by simp
  show "(''eq=saturation='' @ templateFloat numberToString (saturation fieldArgs)) \<in> set filters"
    if "saturation fieldArgs \<noteq> Val 1"
    using that unfolding f by simp
  show "(''overlay=x='' @ x @ '':y='' @ y) \<in> set filters"
    if "truthyStr (overlay fieldArgs)
        \<and> overlayCoordinate ''(main_w-overlay_w)/2'' ''main_w-overlay_w-''
              (if overlayPadding fieldArgs = Undefined then Val 10
               else overlayPadding fieldArgs) (overlayX fieldArgs) = Inr x
        \<and> overlayCoordinate ''(main_h-overlay_h)/2'' ''main_h-overlay_h-''
              (if overlayPadding fieldArgs = Undefined then Val 10
               else overlayPadding fieldArgs) (overlayY fieldArgs) = Inr y"
  proof -
    from that c have "filters = (((
        (case (duration fieldArgs, stream_duration first) of
           (Val d, Val sd) \<Rightarrow>
             if d \<noteq> 0 \<and> truthyProbed sd
             then [''setpts=''
                     @ toFixed6 numberToString
                         (divideBy d (parseIntSigned (probedToString numberToString sd)))
                     @ ''*PTS'']
             else []
         | _ \<Rightarrow> []) @
        (if truthyNum (fps fieldArgs) then [''fps='' @ templateInt (fps fieldArgs)] else [])) @
        (if truthyNum (maxWidth fieldArgs) \<or> truthyNum (maxHeight fieldArgs)
         then [''scale='' @ generateScaleFilter (maxWidth fieldArgs) (maxHeight fieldArgs)]
         else [])) @
        (if saturation fieldArgs \<noteq> Val 1
         then [''eq=saturation='' @ templateFloat numberToString (saturation fieldArgs)]
         else [])) @ [''overlay=x='' @ x @ '':y='' @ y]"
      unfolding createFilters_def list.case Let_def by simp
    then show ?thesis by simp
  qed
qed (rule example_filters_unknown_duration example_all_stages_unknown_duration example_filters
    example_filters_text_duration example_all_stages example_filters_no_duration)+

text \<open>
  All five stages on the stream of unknown duration: the ranks of the returned list increase,
  every kind is present, and the first stage is the time-remap stage built on \<^verbatim>\<open>NaN\<close>.
\<close>

theorem createFilters_unknown_duration_stage_witness:
  "sorted_wrt (<) (map stageRank
       [''setpts=NaN*PTS'', ''fps=4'',
        ''scale='' @ [CHR 0x27] @ ''min(600,iw)'' @ [CHR 0x27] @ '':-2:flags=lanczos'',
        ''eq=saturation=2'', ''overlay=x=(main_w-overlay_w)/2:y=(main_h-overlay_h)/2''])
   \<and> 0 \<in> stageRank ` set
       [''setpts=NaN*PTS'', ''fps=4'',
        ''scale='' @ [CHR 0x27] @ ''min(600,iw)'' @ [CHR 0x27] @ '':-2:flags=lanczos'',
        ''eq=saturation=2'', ''overlay=x=(main_w-overlay_w)/2:y=(main_h-overlay_h)/2'']
   \<and> 4 \<in> stageRank ` set
       [''setpts=NaN*PTS'', ''fps=4'',
        ''scale='' @ [CHR 0x27] @ ''min(600,iw)'' @ [CHR 0x27] @ '':-2:flags=lanczos'',
        ''eq=saturation=2'', ''overlay=x=(main_w-overlay_w)/2:y=(main_h-overlay_h)/2'']
   \<and> truthyNum (duration exampleAllStagesArgs)
   \<and> stream_duration exampleStreamUnknownDuration = Val (ProbedString ''N/A'')
   \<and> parseIntSigned ''N/A'' = None
   \<and> createFilters (\<lambda>r. []) exampleAllStagesArgs [exampleStreamUnknownDuration] =
       Inr [''setpts=NaN*PTS'', ''fps=4'',
            ''scale='' @ [CHR 0x27] @ ''min(600,iw)'' @ [CHR 0x27] @ '':-2:flags=lanczos'',
            ''eq=saturation=2'', ''overlay=x=(main_w-overlay_w)/2:y=(main_h-overlay_h)/2'']"
proof -
  note t = createFilters_unknown_duration_stage [where numberToString = "\<lambda>r. []"
      and fieldArgs = exampleAllStagesArgs and first = exampleStreamUnknownDuration
      and rest = "[]" and s = "''N/A''" and d = 2 and sd = "ProbedString ''N/A''"
      and filters = "[''setpts=NaN*PTS'', ''fps=4'',
        ''scale='' @ [CHR 0x27] @ ''min(600,iw)'' @ [CHR 0x27] @ '':-2:flags=lanczos'',
        ''eq=saturation=2'', ''overlay=x=(main_w-overlay_w)/2:y=(main_h-overlay_h)/2'']"]
  have h: "truthyNum (duration exampleAllStagesArgs)"
    "stream_duration exampleStreamUnknownDuration = Val (ProbedString ''N/A'')"
    "truthyProbed (ProbedString ''N/A'')"
    "truthyStr (overlay exampleAllStagesArgs)"
    by (simp_all add: exampleAllStagesArgs_def exampleStreamUnknownDuration_def truthyNum_def
        truthyProbed_def truthyStr_def)
  from t have c: "createFilters (\<lambda>r. []) exampleAllStagesArgs [exampleStreamUnknownDuration] =
       Inr [''setpts=NaN*PTS'', ''fps=4'',
            ''scale='' @ [CHR 0x27] @ ''min(600,iw)'' @ [CHR 0x27] @ '':-2:flags=lanczos'',
            ''eq=saturation=2'', ''overlay=x=(main_w-overlay_w)/2:y=(main_h-overlay_h)/2'']"
    by blast
  from t c h show ?thesis
    using parseIntSigned_unknown by blast
qed

section \<open>VP9 bucket selection\<close>

text \<open>
  Both \<^verbatim>\<open>reduce\<close> calls return a value nearest to the target among the keys and the seed
  \<open>0\<close> of the accumulator.
\<close>

lemma closest_argmin:
  "closest (Some t) keys \<in> insert 0 (set keys) \<and>
   (\<forall>k \<in> insert 0 (set keys). \<bar>closest (Some t) keys - t\<bar> \<le> \<bar>k - t\<bar>)"
  by (induction keys rule: rev_induct) (auto simp: closest_def closerStep_def)

lemma closest_120: "closest (Some 120) (map fst bitrateMap) = 0"
  by (simp add: closest_def closerStep_def bitrateMap_def)

lemma closest_715: "closest (Some 715) (map fst bitrateMap) = 720"
  by (simp add: closest_def closerStep_def bitrateMap_def)

lemma closest_720: "closest (Some 720) (map fst bitrateMap) = 720"
  by (simp add: closest_def closerStep_def bitrateMap_def)

lemma closest_fps_30: "closest (Some 30) [30, 60] = 30"
  by (simp add: closest_def closerStep_def)

lemma closest_fps_12: "closest (Some 12) [30, 60] = 0"
  by (simp add: closest_def closerStep_def)

lemma bitrateMap_720:
  "map_of bitrateMap 720
     = Some [(30, ''1024k'', ''512k'', ''1485k''), (60, ''1800k'', ''900k'', ''2610k'')]"
  by (simp add: bitrateMap_def)

text \<open>
  A source with minimum dimension 715 at 30 frames per second and no explicit rates gets the
  triplet of the 720p/30fps bucket and the keyframe interval \<open>30 * 8\<close>.
\<close>

lemma profileVP9_715:
  "map_sum id outputOptions (profileVP9 (newSession ''clip.mp4'') [] (exampleVP9Args Null)
      \<lparr>videoStream = exampleVideoStream 1280 715, currentFps = Some 30\<rparr>)
     = Inr [''-crf 31'', ''-b:v 1024k'', ''-minrate 512k'', ''-maxrate 1485k'', ''-cpu-used 1'',
            ''-g 240'', ''-pix_fmt yuv420p'']"
  by (simp add: profileVP9_def orZero_def exampleVideoStream_def closest_715 bitrateMap_720
      exampleVP9Args_def fpsOrCurrent_def closest_fps_30 rateOr_def truthyStr_def
      newSession_def filterBoolean_def List.map_filter_simps optInt_def truthyNum_def
      templateInt_def showInt_def showNum_def showNat_small showNat_big)

text \<open>
  Claim C6 fails on the code for small sources and low frame rates. The accumulator of each
  \<^verbatim>\<open>reduce\<close> starts at \<open>0\<close>, and \<open>0\<close> wins when it is at least as near as every bucket: for
  a 160x120 source (minimum dimension 120) the selected resolution is \<open>0\<close>, which is no key
  of \<open>bitrateMap\<close>, and \<^verbatim>\<open>Object.keys(bitrateMap[0])\<close> throws; for a requested 12 frames per
  second on a 720p source the selected frame rate is \<open>0\<close> and reading the bucket throws. The
  claim expects the 240p bucket and the 30fps bucket.
\<close>

theorem profileVP9_small_source_throws:
  "profileVP9 (newSession ''clip.mp4'') [] (exampleVP9Args Null)
      \<lparr>videoStream = exampleVideoStream 160 120, currentFps = Some 30\<rparr>
     = Inl (TypeError ''Cannot convert undefined or null to object'')
   \<and> profileVP9 (newSession ''clip.mp4'') [] (exampleVP9Args (Val 12))
      \<lparr>videoStream = exampleVideoStream 1280 720, currentFps = Some 30\<rparr>
     = Inl (TypeError ''Cannot read properties of undefined'')"
proof
  have "map_of bitrateMap 0 = None"
    by (simp add: bitrateMap_def)
  then show "profileVP9 (newSession ''clip.mp4'') [] (exampleVP9Args Null)
      \<lparr>videoStream = exampleVideoStream 160 120, currentFps = Some 30\<rparr>
     = Inl (TypeError ''Cannot convert undefined or null to object'')"
    by (simp add: profileVP9_def orZero_def exampleVideoStream_def closest_120)
next
  show "profileVP9 (newSession ''clip.mp4'') [] (exampleVP9Args (Val 12))
      \<lparr>videoStream = exampleVideoStream 1280 720, currentFps = Some 30\<rparr>
     = Inl (TypeError ''Cannot read properties of undefined'')"
    by (simp add: profileVP9_def orZero_def exampleVideoStream_def closest_720 bitrateMap_720
        exampleVP9Args_def fpsOrCurrent_def closest_fps_12 rateOr_def truthyStr_def)
qed

section \<open>H264 and H265 output options\<close>







lemma h26x_keyframe_interval:
  "(''-g '' @ showNum (map_option (\<lambda>x. x div 2) (fpsOrCurrent (fps fieldArgs) current)))
      \<in> set (h264OutputOptions fieldArgs current)"
  "(''-g '' @ showNum (map_option (\<lambda>x. x div 2) (fpsOrCurrent (fps fieldArgs) current)))
      \<in> set (h265OutputOptions fieldArgs current)"
  by (simp_all add: h264OutputOptions_def h265OutputOptions_def set_filterBoolean)











section \<open>Locating the video stream\<close>

lemma find_video_first:
  "\<not> list_ex (\<lambda>s. codec_type s = Val ''video'') pre \<Longrightarrow> codec_type vs = Val ''video'' \<Longrightarrow>
   find (\<lambda>s. codec_type s = Val ''video'') (pre @ vs # post) = Some vs"
  by (induction pre) auto

lemma parseInt_30000: "parseInt ''30000'' = Some 30000"
  by (simp add: parseInt_def parseIntSigned_def isWhiteSpace_def digitValue_def Let_def)

lemma parseVideoStream_none:
  assumes "\<not> list_ex (\<lambda>s. codec_type s = Val ''video'' \<and> truthyStr (r_frame_rate s)) streams"
  shows "parseVideoStream streams = Inl (Error ''Could not parse video'')"
proof (cases "find (\<lambda>s. codec_type s = Val ''video'') streams")
  case None
  then show ?thesis by (simp add: parseVideoStream_def)
next
  case (Some vs)
  then have "vs \<in> set streams" "codec_type vs = Val ''video''"
    by (auto simp: find_Some_iff)
  with assms have "\<not> truthyStr (r_frame_rate vs)"
    by (auto simp: list_ex_iff)
  with Some show ?thesis
    by (simp add: parseVideoStream_def truthyStr_def split: js.splits)
qed

lemma parseVideoStream_first:
  assumes "\<not> list_ex (\<lambda>s. codec_type s = Val ''video'') pre" "codec_type vs = Val ''video''"
  shows "parseVideoStream (pre @ vs # post) =
          (if truthyStr (r_frame_rate vs)
           then Inr \<lparr>videoStream = vs,
                     currentFps = parseInt (takeWhile (\<lambda>c. c \<noteq> CHR ''/'')
                                              (templateStr (r_frame_rate vs)))\<rparr>
           else Inl (Error ''Could not parse video''))"
  using find_video_first [OF assms]
  by (simp add: parseVideoStream_def truthyStr_def templateStr_def split: js.splits)

lemma vp9_keyframe_interval:
  assumes "profileVP9 ffmpegSession filters fieldArgs m = Inr cmd"
  shows "(''-g '' @ showNum (map_option (\<lambda>x. x * 8) (fpsOrCurrent (fps fieldArgs) (currentFps m))))
           \<in> set (outputOptions cmd)"
  using assms
  by (auto simp: profileVP9_def Let_def set_filterBoolean split: option.splits sum.splits)

text \<open>
  Two video streams, the first without a frame rate and the second with \<^verbatim>\<open>30/1\<close>: a video
  stream having a frame rate is present, and \<open>parseVideoStream\<close> throws all the same, since
  \<^verbatim>\<open>find\<close> stops at the first video stream.
\<close>

theorem parseVideoStream_counterexample:
  "list_ex (\<lambda>s. codec_type s = Val ''video'' \<and> truthyStr (r_frame_rate s))
     [exampleStream (Val ''video'') Undefined, exampleStream (Val ''video'') (Val ''30/1'')]
   \<and> parseVideoStream
        [exampleStream (Val ''video'') Undefined, exampleStream (Val ''video'') (Val ''30/1'')]
      = Inl (Error ''Could not parse video'')"
  by (simp add: exampleStream_def parseVideoStream_def truthyStr_def)

text \<open>
  Claim C10, amended. \<open>parseVideoStream\<close> throws when no stream of codec type \<^verbatim>\<open>video\<close> with a
  frame rate is present, and also when the first stream of codec type \<^verbatim>\<open>video\<close> has no frame
  rate (whatever follows it). When the first video stream has one, the result is that stream
  with \<open>currentFps\<close> the \<^verbatim>\<open>parseInt\<close> of the text before the first slash: the numerator only, so
  \<^verbatim>\<open>30000/1001\<close> gives 30000. With no fps requested this value is what the keyframe options
  are computed from: \<open>floor(currentFps / 2)\<close> in the H264 and H265 profiles, \<open>currentFps * 8\<close>
  in the VP9 profile.
\<close>

theorem parseVideoStream_first_video:
  "(\<not> list_ex (\<lambda>s. codec_type s = Val ''video'' \<and> truthyStr (r_frame_rate s)) streams \<longrightarrow>
      parseVideoStream streams = Inl (Error ''Could not parse video''))
   \<and> (\<not> list_ex (\<lambda>s. codec_type s = Val ''video'') pre \<and> codec_type vs = Val ''video'' \<longrightarrow>
        parseVideoStream (pre @ vs # post) =
          (if truthyStr (r_frame_rate vs)
           then Inr \<lparr>videoStream = vs,
                     currentFps = parseInt (takeWhile (\<lambda>c. c \<noteq> CHR ''/'')
                                              (templateStr (r_frame_rate vs)))\<rparr>
           else Inl (Error ''Could not parse video'')))
   \<and> parseInt (takeWhile (\<lambda>c. c \<noteq> CHR ''/'') ''30000/1001'') = Some 30000
   \<and> (\<not> truthyNum (fps fieldArgs) \<and> parseVideoStream streams = Inr m \<longrightarrow>
        (''-g '' @ showNum (map_option (\<lambda>x. x div 2) (currentFps m)))
           \<in> set (h264OutputOptions fieldArgs (currentFps m))
        \<and> (''-g '' @ showNum (map_option (\<lambda>x. x div 2) (currentFps m)))
           \<in> set (h265OutputOptions fieldArgs (currentFps m)))
   \<and> (\<not> truthyNum (fps vp9Args) \<and> parseVideoStream streams = Inr m
        \<and> profileVP9 ffmpegSession filters vp9Args m = Inr cmd \<longrightarrow>
        (''-g '' @ showNum (map_option (\<lambda>x. x * 8) (currentFps m))) \<in> set (outputOptions cmd))"
proof (intro conjI impI)
  assume "\<not> list_ex (\<lambda>s. codec_type s = Val ''video'' \<and> truthyStr (r_frame_rate s)) streams"
  then show "parseVideoStream streams = Inl (Error ''Could not parse video'')"
    by (rule parseVideoStream_none)
next
  assume "\<not> list_ex (\<lambda>s. codec_type s = Val ''video'') pre \<and> codec_type vs = Val ''video''"
  then show "parseVideoStream (pre @ vs # post) =
          (if truthyStr (r_frame_rate vs)
           then Inr \<lparr>videoStream = vs,
                     currentFps = parseInt (takeWhile (\<lambda>c. c \<noteq> CHR ''/'')
                                              (templateStr (r_frame_rate vs)))\<rparr>
           else Inl (Error ''Could not parse video''))"
    by (simp add: parseVideoStream_first)
next
  show "parseInt (takeWhile (\<lambda>c. c \<noteq> CHR ''/'') ''30000/1001'') = Some 30000"
    by (simp add: parseInt_30000)
next
  assume "\<not> truthyNum (fps fieldArgs) \<and> parseVideoStream streams = Inr m"
  then have f: "fpsOrCurrent (fps fieldArgs) (currentFps m) = currentFps m"
    by (simp add: fpsOrCurrent_def truthyNum_def split: js.splits)
  show "(''-g '' @ showNum (map_option (\<lambda>x. x div 2) (currentFps m)))
           \<in> set (h264OutputOptions fieldArgs (currentFps m))"
    using h26x_keyframe_interval(1) [of fieldArgs "currentFps m"] by (simp add: f)
  show "(''-g '' @ showNum (map_option (\<lambda>x. x div 2) (currentFps m)))
           \<in> set (h265OutputOptions fieldArgs (currentFps m))"
    using h26x_keyframe_interval(2) [of fieldArgs "currentFps m"] by (simp add: f)
next
  assume a: "\<not> truthyNum (fps vp9Args) \<and> parseVideoStream streams = Inr m
        \<and> profileVP9 ffmpegSession filters vp9Args m = Inr cmd"
  then have f: "fpsOrCurrent (fps vp9Args) (currentFps m) = currentFps m"
    by (simp add: fpsOrCurrent_def truthyNum_def split: js.splits)
  from a have "profileVP9 ffmpegSession filters vp9Args m = Inr cmd" by simp
  from vp9_keyframe_interval [OF this]
  show "(''-g '' @ showNum (map_option (\<lambda>x. x * 8) (currentFps m))) \<in> set (outputOptions cmd)"
    by (simp add: f)
qed

text \<open>
  An audio stream followed by a video stream at \<^verbatim>\<open>30000/1001\<close>: the current fps is 30000 and
  the H264 keyframe option is \<^verbatim>\<open>-g 15000\<close>. A lone audio stream is rejected.
\<close>

theorem parseVideoStream_first_video_witness:
  "parseVideoStream [exampleStream (Val ''audio'') (Val ''0/0''),
                      exampleStream (Val ''video'') (Val ''30000/1001'')]
     = Inr \<lparr>videoStream = exampleStream (Val ''video'') (Val ''30000/1001''),
             currentFps = Some 30000\<rparr>
   \<and> parseVideoStream [exampleStream (Val ''audio'') (Val ''0/0'')]
     = Inl (Error ''Could not parse video'')
   \<and> ''-g 15000'' \<in> set (h264OutputOptions (exampleH264Args (Val 28)) (Some 30000))"
proof -
  let ?audio = "exampleStream (Val ''audio'') (Val ''0/0'')"
  let ?video = "exampleStream (Val ''video'') (Val ''30000/1001'')"
  let ?m = "\<lparr>videoStream = ?video, currentFps = Some 30000\<rparr>"
  note t1 = parseVideoStream_first_video [of "[?audio]" "[?audio]" ?video "[]"
      "exampleH264Args (Val 28)" ?m "exampleVP9Args Null" "newSession ''clip.mp4''" "[]"]
  have h1: "\<not> list_ex (\<lambda>s. codec_type s = Val ''video'' \<and> truthyStr (r_frame_rate s)) [?audio]"
    by (simp add: exampleStream_def)
  have h2: "\<not> list_ex (\<lambda>s. codec_type s = Val ''video'') [?audio] \<and> codec_type ?video = Val ''video''"
    by (simp add: exampleStream_def)
  have r: "truthyStr (r_frame_rate ?video)" "templateStr (r_frame_rate ?video) = ''30000/1001''"
    by (simp_all add: exampleStream_def truthyStr_def templateStr_def)
  from t1 h1 have c1: "parseVideoStream [?audio] = Inl (Error ''Could not parse video'')"
    by blast
  from t1 h2 have "parseVideoStream ([?audio] @ ?video # []) =
          (if truthyStr (r_frame_rate ?video)
           then Inr \<lparr>videoStream = ?video,
                     currentFps = parseInt (takeWhile (\<lambda>c. c \<noteq> CHR ''/'')
                                              (templateStr (r_frame_rate ?video)))\<rparr>
           else Inl (Error ''Could not parse video''))"
    by blast
  moreover from t1 have "parseInt (takeWhile (\<lambda>c. c \<noteq> CHR ''/'') ''30000/1001'') = Some 30000"
    by blast
  ultimately have c2: "parseVideoStream [?audio, ?video] = Inr ?m"
    by (simp only: r if_True append_Cons append_Nil)
  note t2 = parseVideoStream_first_video [of "[?audio, ?video]" "[?audio]" ?video "[]"
      "exampleH264Args (Val 28)" ?m "exampleVP9Args Null" "newSession ''clip.mp4''" "[]"]
  have h3: "\<not> truthyNum (fps (exampleH264Args (Val 28)))"
    by (simp add: exampleH264Args_def truthyNum_def)
  from t2 h3 c2 have "(''-g '' @ showNum (map_option (\<lambda>x. x div 2) (currentFps ?m)))
           \<in> set (h264OutputOptions (exampleH264Args (Val 28)) (currentFps ?m))"
    by blast
  moreover have "''-g '' @ showNum (map_option (\<lambda>x. x div 2) (currentFps ?m)) = ''-g 15000''"
    by (simp add: showNum_def showInt_def showNat_small showNat_big)
  ultimately have c3: "''-g 15000'' \<in> set (h264OutputOptions (exampleH264Args (Val 28)) (Some 30000))"
    by simp
  from c1 c2 c3 show ?thesis by simp
qed

section \<open>A failed transcode and the cache\<close>




subsection \<open>An H264 job on an empty cache\<close>











section \<open>Cache keys\<close>

lemma filter_key_distinct:
  "distinct (map fst xs) \<Longrightarrow> k \<in> set xs \<Longrightarrow> filter (\<lambda>x. fst k = fst x) xs = [k]"
proof (induction xs)
  case Nil
  then show ?case by simp
next
  case (Cons a xs)
  from Cons.prems(1) have fresh: "\<forall>x \<in> set xs. fst x \<noteq> fst a"
    by (auto simp: image_iff)
  from Cons.prems(1) have d: "distinct (map fst xs)"
    by simp
  show ?case
  proof (cases "k = a")
    case True
    from fresh have "filter (\<lambda>x. fst a = fst x) xs = []"
      by (induction xs) auto
    with True show ?thesis by simp
  next
    case False
    with Cons.prems(2) have k: "k \<in> set xs" by simp
    with fresh have "fst k \<noteq> fst a" by blast
    with Cons.IH [OF d k] show ?thesis by simp
  qed
qed

text \<open>Two lists of entries with the same entries and no key twice sort to the same list.\<close>

lemma sort_key_permutation:
  assumes d: "distinct (map fst xs)" and m: "mset ys = mset xs"
  shows "sort_key fst ys = sort_key fst xs"
proof (rule properties_for_sort_key)
  show "mset (sort_key fst xs) = mset ys"
    using m by simp
  show "sorted (map fst (sort_key fst xs))"
    by simp
  fix k assume "k \<in> set (sort_key fst xs)"
  then have kx: "k \<in> set xs" by simp
  then have ky: "k \<in> set ys" using m by (metis mset_eq_setD)
  have "mset (map fst ys) = mset (map fst xs)"
    using m by (metis mset_map)
  then have dy: "distinct (map fst ys)"
    using d by (metis mset_eq_imp_distinct_iff)
  have "filter (\<lambda>x. fst k = fst x) (sort_key fst xs) = sort_key fst (filter (\<lambda>x. fst k = fst x) xs)"
    by (simp add: filter_sort)
  then show "filter (\<lambda>x. fst k = fst x) (sort_key fst xs) = filter (\<lambda>x. fst k = fst x) ys"
    by (simp add: filter_key_distinct [OF d kx] filter_key_distinct [OF dy ky])
qed

lemma createContentDigest_permutation:
  "distinct (map fst entries) \<Longrightarrow> mset entries' = mset entries \<Longrightarrow>
   createContentDigest d (JObject entries') = createContentDigest d (JObject entries)"
  using sort_key_permutation [of entries entries']
  by (simp add: createContentDigest_def canonicalize_def)

lemma analyze_permutation:
  assumes "distinct (map fst entries)" "mset entries' = mset entries"
  shows "analyzeAndFetchVideo rt video (JObject entries') ty
         = analyzeAndFetchVideo rt video (JObject entries) ty"
  unfolding analyzeAndFetchVideo_def createContentDigest_permutation [OF assms]
  by (rule refl)

lemma analyze_file_key:
  assumes "base video = Val b" "b \<noteq> []" "absolutePath video = Val p" "p \<noteq> []"
    "executeFfprobe rt p = Inr info"
  shows "analyzeAndFetchVideo rt video fieldArgs TypeFile =
           Inr (p, parseName rt b @ ''-'' @ contentDigest (internal video) @ ''-''
                     @ createContentDigest (digest rt) fieldArgs, info)"
  using assms
  by (simp add: analyzeAndFetchVideo_def truthyStr_def templateStr_def)

text \<open>
  Claim C8. For two argument objects with the same entries in different insertion order (no
  key twice) and one source, the options hash is the same and \<open>analyzeAndFetchVideo\<close> returns
  the same result, the cache key (\<^verbatim>\<open>filename\<close>) included. For a \<^verbatim>\<open>File\<close> node the key is the
  name, the source's content digest and the options hash, joined by dashes in this one order.
\<close>

theorem cache_key_order_independent:
  "(distinct (map fst entries) \<and> mset entries' = mset entries \<longrightarrow>
      createContentDigest d (JObject entries') = createContentDigest d (JObject entries)
      \<and> analyzeAndFetchVideo rt video (JObject entries') ty
          = analyzeAndFetchVideo rt video (JObject entries) ty)
   \<and> (base video = Val b \<and> b \<noteq> [] \<and> absolutePath video = Val p \<and> p \<noteq> []
       \<and> executeFfprobe rt p = Inr info \<longrightarrow>
      analyzeAndFetchVideo rt video fieldArgs TypeFile =
        Inr (p, parseName rt b @ ''-'' @ contentDigest (internal video) @ ''-''
                  @ createContentDigest (digest rt) fieldArgs, info))"
  using createContentDigest_permutation [of entries entries' d]
    analyze_permutation [of entries entries' rt video ty]
    analyze_file_key [of video b p rt info fieldArgs]
  by blast

text \<open>
  The arguments \<^verbatim>\<open>fps\<close> and \<^verbatim>\<open>duration\<close> in both orders, hashed by a digest that would tell the
  orders apart, for the file \<^verbatim>\<open>clip.mp4\<close>.
\<close>

theorem cache_key_order_independent_witness:
  "createContentDigest exampleDigest (JObject [(''fps'', JNumber 4), (''duration'', JNumber 2)])
     = createContentDigest exampleDigest (JObject [(''duration'', JNumber 2), (''fps'', JNumber 4)])
   \<and> analyzeAndFetchVideo exampleRuntime (exampleVideo (Val ''video/mp4''))
        (JObject [(''fps'', JNumber 4), (''duration'', JNumber 2)]) TypeFile
     = analyzeAndFetchVideo exampleRuntime (exampleVideo (Val ''video/mp4''))
        (JObject [(''duration'', JNumber 2), (''fps'', JNumber 4)]) TypeFile
   \<and> analyzeAndFetchVideo exampleRuntime (exampleVideo (Val ''video/mp4''))
        (JObject [(''duration'', JNumber 2), (''fps'', JNumber 4)]) TypeFile
     = Inr (''/site/clip.mp4'',
            ''clip-abc123-'' @ createContentDigest exampleDigest
                                 (JObject [(''duration'', JNumber 2), (''fps'', JNumber 4)]),
            [exampleVideoStream 1280 720])"
proof -
  note t = cache_key_order_independent [of "[(''duration'', JNumber 2), (''fps'', JNumber 4)]"
      "[(''fps'', JNumber 4), (''duration'', JNumber 2)]" exampleDigest exampleRuntime
      "exampleVideo (Val ''video/mp4'')" TypeFile "''clip.mp4''" "''/site/clip.mp4''"
      "[exampleVideoStream 1280 720]" "JObject [(''duration'', JNumber 2), (''fps'', JNumber 4)]"]
  have h1: "distinct (map fst [(''duration'', JNumber 2), (''fps'', JNumber 4)]) \<and>
      mset [(''fps'', JNumber 4), (''duration'', JNumber 2)]
        = mset [(''duration'', JNumber 2), (''fps'', JNumber 4)]"
    by (simp add: add.commute)
  have h2: "base (exampleVideo (Val ''video/mp4'')) = Val ''clip.mp4'' \<and> ''clip.mp4'' \<noteq> [] \<and>
      absolutePath (exampleVideo (Val ''video/mp4'')) = Val ''/site/clip.mp4'' \<and>
      ''/site/clip.mp4'' \<noteq> [] \<and>
      executeFfprobe exampleRuntime ''/site/clip.mp4'' = Inr [exampleVideoStream 1280 720]"
    by (simp add: exampleVideo_def exampleRuntime_def)
  have n: "parseName exampleRuntime ''clip.mp4'' @ ''-''
        @ contentDigest (internal (exampleVideo (Val ''video/mp4''))) @ ''-''
        @ createContentDigest (digest exampleRuntime)
            (JObject [(''duration'', JNumber 2), (''fps'', JNumber 4)])
      = ''clip-abc123-'' @ createContentDigest exampleDigest
            (JObject [(''duration'', JNumber 2), (''fps'', JNumber 4)])"
    by (simp add: exampleVideo_def exampleRuntime_def)
  from t h1 have c1: "createContentDigest exampleDigest
        (JObject [(''fps'', JNumber 4), (''duration'', JNumber 2)])
     = createContentDigest exampleDigest (JObject [(''duration'', JNumber 2), (''fps'', JNumber 4)])"
    and c2: "analyzeAndFetchVideo exampleRuntime (exampleVideo (Val ''video/mp4''))
        (JObject [(''fps'', JNumber 4), (''duration'', JNumber 2)]) TypeFile
     = analyzeAndFetchVideo exampleRuntime (exampleVideo (Val ''video/mp4''))
        (JObject [(''duration'', JNumber 2), (''fps'', JNumber 4)]) TypeFile"
    by blast+
  from t h2 have c3: "analyzeAndFetchVideo exampleRuntime (exampleVideo (Val ''video/mp4''))
        (JObject [(''duration'', JNumber 2), (''fps'', JNumber 4)]) TypeFile
     = Inr (''/site/clip.mp4'',
            parseName exampleRuntime ''clip.mp4'' @ ''-''
              @ contentDigest (internal (exampleVideo (Val ''video/mp4''))) @ ''-''
              @ createContentDigest (digest exampleRuntime)
                  (JObject [(''duration'', JNumber 2), (''fps'', JNumber 4)]),
            [exampleVideoStream 1280 720])"
    by blast
  from c1 c2 c3 show ?thesis
    unfolding n by blast
qed

section \<open>The resolver and the wrong file type\<close>

lemma isSubstring_iff: "isSubstring pat s = (\<exists>a b. s = a @ pat @ b)"
proof (induction s)
  case Nil
  then show ?case by auto
next
  case (Cons c cs)
  have "(take (length pat) (c # cs) = pat) = (\<exists>b. c # cs = pat @ b)"
    by (metis append_eq_conv_conj append_take_drop_id)
  moreover have "(\<exists>a b. c # cs = a @ pat @ b) =
      ((\<exists>b. c # cs = pat @ b) \<or> (\<exists>a b. cs = a @ pat @ b))"
  proof
    assume "\<exists>a b. c # cs = a @ pat @ b"
    then obtain a b where ab: "c # cs = a @ pat @ b" by blast
    show "(\<exists>b. c # cs = pat @ b) \<or> (\<exists>a b. cs = a @ pat @ b)"
    proof (cases a)
      case Nil
      with ab show ?thesis by auto
    next
      case (Cons x a')
      with ab have "cs = a' @ pat @ b" by simp
      then show ?thesis by blast
    qed
  next
    assume "(\<exists>b. c # cs = pat @ b) \<or> (\<exists>a b. cs = a @ pat @ b)"
    then show "\<exists>a b. c # cs = a @ pat @ b"
    proof
      assume "\<exists>b. c # cs = pat @ b"
      then obtain b where "c # cs = [] @ pat @ b" by auto
      then show ?thesis by blast
    next
      assume "\<exists>a b. cs = a @ pat @ b"
      then obtain a b where "c # cs = (c # a) @ pat @ b" by auto
      then show ?thesis by blast
    qed
  qed
  ultimately show ?case using Cons.IH by simp
qed

lemma resolve_wrong_type_file:
  assumes "internalType (internal video) = TypeFile" "mediaType (internal video) = Val t"
    "t \<noteq> []" "\<not> isSubstring ''video/'' t"
  shows "resolveVideo rt rootDir transformer processResult video fieldArgs fs = (Inr None, fs)"
  using assms
  by (simp add: resolveVideo_def prepareAndAnalyzeVideo_def catchWrongFileType_def truthyStr_def
      templateStr_def)

lemma resolve_wrong_type_contentful:
  assumes "internalType (internal video) = TypeContentfulAsset" "nodeFile video = Val f"
    "contentType f = Val t" "t \<noteq> []" "\<not> isSubstring ''video/'' t"
  shows "resolveVideo rt rootDir transformer processResult video fieldArgs fs = (Inr None, fs)"
  using assms
  by (simp add: resolveVideo_def prepareAndAnalyzeVideo_def catchWrongFileType_def truthyStr_def
      templateStr_def)

lemma resolve_rethrows:
  assumes "e \<noteq> WrongFileTypeError"
  shows "prepareAndAnalyzeVideo rt rootDir video fieldArgs fs = (Inl e, fs1) \<Longrightarrow>
         resolveVideo rt rootDir transformer processResult video fieldArgs fs = (Inl e, fs1)"
    and "prepareAndAnalyzeVideo rt rootDir video fieldArgs fs = (Inr (publicDir, p, name, info), fs1)
         \<Longrightarrow> transformer video publicDir p name fieldArgs info fs1 = (Inl e, fs2)
         \<Longrightarrow> resolveVideo rt rootDir transformer processResult video fieldArgs fs = (Inl e, fs2)"
    and "prepareAndAnalyzeVideo rt rootDir video fieldArgs fs = (Inr (publicDir, p, name, info), fs1)
         \<Longrightarrow> transformer video publicDir p name fieldArgs info fs1 = (Inr publicFile, fs2)
         \<Longrightarrow> processResult publicFile = Inl e
         \<Longrightarrow> resolveVideo rt rootDir transformer processResult video fieldArgs fs = (Inl e, fs2)"
  using assms by (simp_all add: resolveVideo_def catchWrongFileType_def)

text \<open>
  Claim C9. For every asset whose file type is resolved (a non-empty string, the media type
  of a \<^verbatim>\<open>File\<close> node or the content type of a Contentful asset) and does not contain \<^verbatim>\<open>video/\<close>,
  the resolver returns \<^verbatim>\<open>null\<close> and leaves the file system as it was: the
  \<open>WrongFileTypeError\<close> of the preparation is caught. Every other error, whether raised by the
  preparation, by the transformer or by \<open>processResult\<close>, is the rejection of the resolver's
  own result.
\<close>

theorem resolveVideo_wrong_file_type:
  "(internalType (internal video) = TypeFile \<and> mediaType (internal video) = Val t \<and> t \<noteq> []
      \<and> \<not> isSubstring ''video/'' t \<longrightarrow>
      resolveVideo rt rootDir transformer processResult video fieldArgs fs = (Inr None, fs))
   \<and> (internalType (internal video) = TypeContentfulAsset \<and> nodeFile video = Val f
      \<and> contentType f = Val t \<and> t \<noteq> [] \<and> \<not> isSubstring ''video/'' t \<longrightarrow>
      resolveVideo rt rootDir transformer processResult video fieldArgs fs = (Inr None, fs))
   \<and> (e \<noteq> WrongFileTypeError
      \<and> prepareAndAnalyzeVideo rt rootDir video fieldArgs fs = (Inl e, fs1) \<longrightarrow>
      resolveVideo rt rootDir transformer processResult video fieldArgs fs = (Inl e, fs1))
   \<and> (e \<noteq> WrongFileTypeError
      \<and> prepareAndAnalyzeVideo rt rootDir video fieldArgs fs = (Inr (publicDir, p, name, info), fs1)
      \<and> transformer video publicDir p name fieldArgs info fs1 = (Inl e, fs2) \<longrightarrow>
      resolveVideo rt rootDir transformer processResult video fieldArgs fs = (Inl e, fs2))
   \<and> (e \<noteq> WrongFileTypeError
      \<and> prepareAndAnalyzeVideo rt rootDir video fieldArgs fs = (Inr (publicDir, p, name, info), fs1)
      \<and> transformer video publicDir p name fieldArgs info fs1 = (Inr publicFile, fs2)
      \<and> processResult publicFile = Inl e \<longrightarrow>
      resolveVideo rt rootDir transformer processResult video fieldArgs fs = (Inl e, fs2))"
proof (intro conjI impI)
  assume "internalType (internal video) = TypeFile \<and> mediaType (internal video) = Val t \<and> t \<noteq> []
      \<and> \<not> isSubstring ''video/'' t"
  then show "resolveVideo rt rootDir transformer processResult video fieldArgs fs = (Inr None, fs)"
    by (simp add: resolve_wrong_type_file)
next
  assume "internalType (internal video) = TypeContentfulAsset \<and> nodeFile video = Val f
      \<and> contentType f = Val t \<and> t \<noteq> [] \<and> \<not> isSubstring ''video/'' t"
  then show "resolveVideo rt rootDir transformer processResult video fieldArgs fs = (Inr None, fs)"
    by (simp add: resolve_wrong_type_contentful [of video f t])
next
  assume "e \<noteq> WrongFileTypeError
      \<and> prepareAndAnalyzeVideo rt rootDir video fieldArgs fs = (Inl e, fs1)"
  then show "resolveVideo rt rootDir transformer processResult video fieldArgs fs = (Inl e, fs1)"
    by (simp add: resolve_rethrows(1))
next
  assume "e \<noteq> WrongFileTypeError
      \<and> prepareAndAnalyzeVideo rt rootDir video fieldArgs fs = (Inr (publicDir, p, name, info), fs1)
      \<and> transformer video publicDir p name fieldArgs info fs1 = (Inl e, fs2)"
  then show "resolveVideo rt rootDir transformer processResult video fieldArgs fs = (Inl e, fs2)"
    using resolve_rethrows(2) [of e rt rootDir video fieldArgs fs publicDir p name info fs1
        transformer fs2 processResult]
    by blast
next
  assume "e \<noteq> WrongFileTypeError
      \<and> prepareAndAnalyzeVideo rt rootDir video fieldArgs fs = (Inr (publicDir, p, name, info), fs1)
      \<and> transformer video publicDir p name fieldArgs info fs1 = (Inr publicFile, fs2)
      \<and> processResult publicFile = Inl e"
  then show "resolveVideo rt rootDir transformer processResult video fieldArgs fs = (Inl e, fs2)"
    using resolve_rethrows(3) [of e rt rootDir video fieldArgs fs publicDir p name info fs1
        transformer publicFile fs2 processResult]
    by blast
qed

text \<open>
  An image file resolves to \<^verbatim>\<open>null\<close>; a file without a media type rejects with the error of
  the preparation.
\<close>

theorem resolveVideo_wrong_file_type_witness:
  "resolveVideo exampleRuntime [''site''] exampleTransformer Inr (exampleVideo (Val ''image/png''))
       (JObject [(''publicPath'', JString ''static'')]) (exampleTiers [])
     = (Inr None, exampleTiers [])
   \<and> resolveVideo exampleRuntime [''site''] exampleTransformer Inr (exampleVideo Undefined)
       (JObject [(''publicPath'', JString ''static'')]) (exampleTiers [])
     = (Inl (Error ''Unable to extract asset file type''), exampleTiers [])"
proof -
  note t1 = resolveVideo_wrong_file_type [of "exampleVideo (Val ''image/png'')" "''image/png''"
      exampleRuntime "[''site'']" exampleTransformer Inr
      "JObject [(''publicPath'', JString ''static'')]" "exampleTiers []"]
  note t2 = resolveVideo_wrong_file_type [of "exampleVideo Undefined" "''image/png''"
      exampleRuntime "[''site'']" exampleTransformer Inr
      "JObject [(''publicPath'', JString ''static'')]" "exampleTiers []" _
      "Error ''Unable to extract asset file type''" "exampleTiers []"]
  have h1: "internalType (internal (exampleVideo (Val ''image/png''))) = TypeFile \<and>
      mediaType (internal (exampleVideo (Val ''image/png''))) = Val ''image/png'' \<and>
      ''image/png'' \<noteq> [] \<and> \<not> isSubstring ''video/'' ''image/png''"
    by (simp add: exampleVideo_def)
  have h2: "Error ''Unable to extract asset file type'' \<noteq> WrongFileTypeError \<and>
      prepareAndAnalyzeVideo exampleRuntime [''site''] (exampleVideo Undefined)
        (JObject [(''publicPath'', JString ''static'')]) (exampleTiers [])
      = (Inl (Error ''Unable to extract asset file type''), exampleTiers [])"
    by (simp add: prepareAndAnalyzeVideo_def exampleVideo_def truthyStr_def)
  from t1 h1 have "resolveVideo exampleRuntime [''site''] exampleTransformer Inr
       (exampleVideo (Val ''image/png'')) (JObject [(''publicPath'', JString ''static'')])
       (exampleTiers [])
     = (Inr None, exampleTiers [])"
    by blast
  moreover from t2 h2 have "resolveVideo exampleRuntime [''site''] exampleTransformer Inr
       (exampleVideo Undefined) (JObject [(''publicPath'', JString ''static'')]) (exampleTiers [])
     = (Inl (Error ''Unable to extract asset file type''), exampleTiers [])"
    by blast
  ultimately show ?thesis by blast
qed

end
